theory Spec2Isabelle
  imports Complex_Main
begin

section \<open>Errors raised by the notebook and by the library calls it makes\<close>

datatype error =
    RandomRangeError int int
  | OverflowError
  | ZeroDivisionError
  | StackEmptyError
  | NegativeDimensionError
  | EmbedDimValueError int
  | EmbedDimAssertionError int
  | IndexError
  | ShapeError
  | BatchMismatchError nat nat
  | KeyError string
  | TypeError
  | ValueError

section \<open>Random number generators\<close>

text \<open>
  The notebook draws from two generators: NumPy's (\<^verbatim>\<open>np.random.random()\<close>) and
  PyTorch's (\<^verbatim>\<open>torch.randint\<close>). A generator is the infinite sequence of raw draws
  it is going to produce; reading \<open>n\<close> draws shifts the sequence by \<open>n\<close>. Every value
  of the range of a call is reached by some raw draw.
\<close>

type_synonym generator = "nat \<Rightarrow> nat"

definition advance :: "nat \<Rightarrow> generator \<Rightarrow> generator" where
  "advance n g = (\<lambda>i. g (i + n))"

definition const_gen :: "nat \<Rightarrow> generator" where
  "const_gen c = (\<lambda>i. c)"

text \<open>\<^verbatim>\<open>np.random.random()\<close>: a 53-bit fraction in the half-open interval from 0 to 1.\<close>

definition np_random :: "generator \<Rightarrow> real \<times> generator" where
  "np_random g = (real (g 0 mod 2 ^ 53) / 2 ^ 53, advance 1 g)"

definition int64_max :: int where
  "int64_max = 2 ^ 63 - 1"

text \<open>
  \<^verbatim>\<open>torch.randint(low, high, (n,))\<close>: \<open>n\<close> integers of the half-open range from
  \<open>low\<close> to \<open>high\<close> as a one-dimensional int64 tensor. The bounds must fit int64 and
  the range must not be empty.
\<close>

definition randint :: "int \<Rightarrow> int \<Rightarrow> nat \<Rightarrow> generator \<Rightarrow> error + (int list \<times> generator)" where
  "randint low high n g =
     (if low < - int64_max - 1 \<or> int64_max < low \<or>
         high < - int64_max - 1 \<or> int64_max < high then Inl OverflowError
      else if high \<le> low then Inl (RandomRangeError low high)
      else Inr (map (\<lambda>i. low + int (g i mod nat (high - low))) [0..<n], advance n g))"

text \<open>
  \<^verbatim>\<open>tensor % k\<close> for an int64 tensor and a Python integer \<open>k\<close>. A divisor that fits
  a signed 64-bit integer is taken as it is; one that only fits an unsigned 64-bit
  integer is wrapped to the int64 of the same bits, \<open>k - 2 ^ 64\<close>, which is negative;
  any other raises. The remainder has the sign of the divisor, as \<open>mod\<close> on \<open>int\<close> has,
  and the divisor must not be zero.
\<close>

definition to_int64 :: "int \<Rightarrow> error + int" where
  "to_int64 k =
     (if k < - int64_max - 1 \<or> 2 * int64_max + 1 < k then Inl OverflowError
      else if int64_max < k then Inr (k - 2 * (int64_max + 1))
      else Inr k)"

definition remainder :: "int list \<Rightarrow> int \<Rightarrow> error + int list" where
  "remainder xs k =
     (case to_int64 k of
        Inl e \<Rightarrow> Inl e
      | Inr d \<Rightarrow> if d = 0 then Inl ZeroDivisionError else Inr (map (\<lambda>x. x mod d) xs))"

section \<open>Synthetic data generation (the first part of \<^verbatim>\<open>run_comparison\<close>)\<close>

type_synonym generators = "generator \<times> generator"
type_synonym example = "int list \<times> int"

text \<open>
  One iteration of the generation loop. The first generator is NumPy's, the second is
  PyTorch's. In pattern 1 the label is the zero-dimensional tensor
  \<^verbatim>\<open>(seq[0] + seq[-1]) % vocab_size\<close>; in pattern 2 it is the one-element tensor
  \<^verbatim>\<open>(base_token + 3) % vocab_size\<close>, and \<^verbatim>\<open>base_token + noise\<close> broadcasts the
  one element over the ten of \<^verbatim>\<open>noise\<close>. \<^verbatim>\<open>torch.tensor(labels)\<close> later reads either
  kind of label as one integer, which is what the model keeps.
\<close>

definition gen_example :: "int \<Rightarrow> generators \<Rightarrow> error + (example \<times> generators)" where
  "gen_example vocab_size gs =
     (case gs of (np, tg) \<Rightarrow>
      (case np_random np of (u, np') \<Rightarrow>
        if u < 0.5 then
          (case randint 0 (vocab_size div 4) 10 tg of
             Inl e \<Rightarrow> Inl e
           | Inr (seq, tg') \<Rightarrow>
              (case remainder [seq ! 0 + seq ! (length seq - 1)] vocab_size of
                 Inl e \<Rightarrow> Inl e
               | Inr label \<Rightarrow> Inr ((seq, label ! 0), (np', tg'))))
        else
          (case randint 0 (vocab_size div 4) 1 tg of
             Inl e \<Rightarrow> Inl e
           | Inr (base_token, tg1) \<Rightarrow>
              (case randint (- 2) 3 10 tg1 of
                 Inl e \<Rightarrow> Inl e
               | Inr (noise, tg2) \<Rightarrow>
                  (case remainder (map (\<lambda>n. base_token ! 0 + n) noise) vocab_size of
                     Inl e \<Rightarrow> Inl e
                   | Inr seq \<Rightarrow>
                      (case remainder [base_token ! 0 + 3] vocab_size of
                         Inl e \<Rightarrow> Inl e
                       | Inr label \<Rightarrow> Inr ((seq, label ! 0), (np', tg2))))))))"

text \<open>
  The loop \<^verbatim>\<open>for _ in range(dataset_size)\<close>, appending to \<^verbatim>\<open>sequences\<close> and
  \<^verbatim>\<open>labels\<close>; the first argument counts the iterations that remain.
\<close>

fun gen_loop :: "nat \<Rightarrow> int \<Rightarrow> generators \<Rightarrow> int list list \<times> int list \<Rightarrow>
    error + ((int list list \<times> int list) \<times> generators)" where
  "gen_loop 0 vocab_size gs acc = Inr (acc, gs)"
| "gen_loop (Suc n) vocab_size gs acc =
     (case gen_example vocab_size gs of
        Inl e \<Rightarrow> Inl e
      | Inr ((seq, label), gs') \<Rightarrow>
          gen_loop n vocab_size gs' (fst acc @ [seq], snd acc @ [label]))"

text \<open>
  \<^verbatim>\<open>torch.stack(sequences)\<close> refuses an empty list; the sequences stacked here all
  have ten elements, so the other failure of \<^verbatim>\<open>torch.stack\<close> (unequal sizes) does
  not arise. \<^verbatim>\<open>range\<close> of a non-positive number is empty.
\<close>

definition stack :: "int list list \<Rightarrow> error + int list list" where
  "stack sequences = (if sequences = [] then Inl StackEmptyError else Inr sequences)"

definition generate_data :: "int \<Rightarrow> int \<Rightarrow> generators \<Rightarrow>
    error + ((int list list \<times> int list) \<times> generators)" where
  "generate_data vocab_size dataset_size gs =
     (case gen_loop (nat dataset_size) vocab_size gs ([], []) of
        Inl e \<Rightarrow> Inl e
      | Inr ((sequences, labels), gs') \<Rightarrow>
          (case stack sequences of
             Inl e \<Rightarrow> Inl e
           | Inr data \<Rightarrow> Inr ((data, labels), gs')))"

definition example_of :: "error + (example \<times> generators) \<Rightarrow> example option" where
  "example_of r = (case r of Inl e \<Rightarrow> None | Inr (ex, gs) \<Rightarrow> Some ex)"

text \<open>Which branch of the loop body the next NumPy draw selects.\<close>

definition pattern1 :: "generators \<Rightarrow> bool" where
  "pattern1 gs = (fst (np_random (fst gs)) < 0.5)"

section \<open>Tensors and the library layers the models are built from\<close>

text \<open>
  Floating-point tensors are nested lists of reals, one list level per dimension; the
  arithmetic is exact where PyTorch rounds. Each layer makes the shape checks that the
  library makes, and fails with the library's error when one does not hold.
\<close>

type_synonym vec = "real list"
type_synonym matrix = "real list list"
type_synonym tensor3 = "real list list list"

text \<open>
  The initial value of element \<open>k\<close> (in row-major order) of the parameter of a given
  name; PyTorch draws these values at random.
\<close>

type_synonym initializer = "string \<Rightarrow> nat \<Rightarrow> real"

definition const_init :: "real \<Rightarrow> initializer" where
  "const_init c = (\<lambda>name k. c)"

definition new_vector :: "nat \<Rightarrow> (nat \<Rightarrow> real) \<Rightarrow> vec" where
  "new_vector n f = map f [0..<n]"

definition new_matrix :: "nat \<Rightarrow> nat \<Rightarrow> (nat \<Rightarrow> real) \<Rightarrow> matrix" where
  "new_matrix r c f = map (\<lambda>i. map (\<lambda>j. f (i * c + j)) [0..<c]) [0..<r]"

subsection \<open>Dropout\<close>

text \<open>
  The random outcome of the dropout calls of one forward pass: whether the element at a
  multi-index is kept. In training mode a kept element is scaled by \<open>1 / (1 - p)\<close> and
  a dropped one is zero; in evaluation mode dropout is the identity.
\<close>

type_synonym mask = "nat list \<Rightarrow> bool"

definition keep_all :: mask where
  "keep_all = (\<lambda>ix. True)"

definition dropout1 :: "bool \<Rightarrow> real \<Rightarrow> mask \<Rightarrow> vec \<Rightarrow> vec" where
  "dropout1 training p keep xs =
     (if training then map (\<lambda>(i, x). if keep [i] then x / (1 - p) else 0) (enumerate 0 xs)
      else xs)"

definition dropout2 :: "bool \<Rightarrow> real \<Rightarrow> mask \<Rightarrow> matrix \<Rightarrow> matrix" where
  "dropout2 training p keep X =
     map (\<lambda>(i, xs). dropout1 training p (\<lambda>ix. keep (i # ix)) xs) (enumerate 0 X)"

definition dropout3 :: "bool \<Rightarrow> real \<Rightarrow> mask \<Rightarrow> tensor3 \<Rightarrow> tensor3" where
  "dropout3 training p keep X =
     map (\<lambda>(i, M). dropout2 training p (\<lambda>ix. keep (i # ix)) M) (enumerate 0 X)"

subsection \<open>\<^verbatim>\<open>nn.Linear\<close>\<close>

record linear =
  in_features :: nat
  out_features :: nat
  lin_weight :: matrix
  lin_bias :: vec

definition Linear :: "int \<Rightarrow> int \<Rightarrow> string \<Rightarrow> initializer \<Rightarrow> error + linear" where
  "Linear n_in n_out name init =
     (if n_in < 0 \<or> n_out < 0 then Inl NegativeDimensionError
      else Inr \<lparr>in_features = nat n_in, out_features = nat n_out,
                lin_weight = new_matrix (nat n_out) (nat n_in) (init (name @ ''.weight'')),
                lin_bias = new_vector (nat n_out) (init (name @ ''.bias''))\<rparr>)"

definition dot :: "vec \<Rightarrow> vec \<Rightarrow> real" where
  "dot a b = sum_list (map2 (*) a b)"

definition linear_row :: "linear \<Rightarrow> vec \<Rightarrow> vec" where
  "linear_row l x = map2 (\<lambda>row b. dot row x + b) (lin_weight l) (lin_bias l)"

text \<open>The layer applies to the last dimension, which must have \<open>in_features\<close> elements.\<close>

definition linear_forward :: "linear \<Rightarrow> matrix \<Rightarrow> error + matrix" where
  "linear_forward l X =
     (if \<forall>x \<in> set X. length x = in_features l then Inr (map (linear_row l) X)
      else Inl ShapeError)"

definition linear_forward3 :: "linear \<Rightarrow> tensor3 \<Rightarrow> error + tensor3" where
  "linear_forward3 l X =
     (if \<forall>M \<in> set X. \<forall>x \<in> set M. length x = in_features l
      then Inr (map (map (linear_row l)) X)
      else Inl ShapeError)"

definition relu :: "matrix \<Rightarrow> matrix" where
  "relu X = map (map (max 0)) X"

subsection \<open>\<^verbatim>\<open>nn.Embedding\<close>\<close>

record embedding_layer =
  emb_num :: nat
  emb_dim :: nat
  emb_weight :: matrix

definition Embedding :: "int \<Rightarrow> int \<Rightarrow> string \<Rightarrow> initializer \<Rightarrow> error + embedding_layer" where
  "Embedding num_embeddings embedding_dim name init =
     (if num_embeddings < 0 \<or> embedding_dim < 0 then Inl NegativeDimensionError
      else Inr \<lparr>emb_num = nat num_embeddings, emb_dim = nat embedding_dim,
                emb_weight = new_matrix (nat num_embeddings) (nat embedding_dim)
                               (init (name @ ''.weight''))\<rparr>)"

text \<open>A batch of token sequences; every token must index a row of the table.\<close>

definition embedding_forward :: "embedding_layer \<Rightarrow> int list list \<Rightarrow> error + tensor3" where
  "embedding_forward emb x =
     (if \<forall>s \<in> set x. \<forall>t \<in> set s. 0 \<le> t \<and> t < int (emb_num emb)
      then Inr (map (map (\<lambda>t. emb_weight emb ! nat t)) x)
      else Inl IndexError)"

text \<open>
  \<^verbatim>\<open>torch.mean(X, dim=1)\<close> and \<^verbatim>\<open>X.mean(1)\<close> for a three-dimensional tensor: the mean
  over the positions of each sequence. The size \<open>d\<close> of the last dimension belongs to
  the shape of a tensor; a nested list of no rows has lost it, so it is an argument.
  (Over no positions PyTorch computes NaN where \<open>0 / 0 = 0\<close> in HOL.)
\<close>

definition mean_dim1 :: "nat \<Rightarrow> tensor3 \<Rightarrow> matrix" where
  "mean_dim1 d X =
     map (\<lambda>rows. map (\<lambda>j. sum_list (map (\<lambda>r. r ! j) rows) / real (length rows)) [0..<d]) X"

subsection \<open>\<^verbatim>\<open>F.cosine_similarity\<close>\<close>

definition cosine_row :: "vec \<Rightarrow> vec \<Rightarrow> real" where
  "cosine_row a b =
     dot a b / (max (sqrt (dot a a)) (1 / 10 ^ 8) * max (sqrt (dot b b)) (1 / 10 ^ 8))"

text \<open>
  Along dimension 1 of two matrices, whose first dimensions broadcast: equal, or one of
  them 1.
\<close>

definition cosine_similarity :: "matrix \<Rightarrow> matrix \<Rightarrow> error + vec" where
  "cosine_similarity A B =
     (if length A = length B then Inr (map2 cosine_row A B)
      else if length A = 1 then Inr (map (cosine_row (A ! 0)) B)
      else if length B = 1 then Inr (map (\<lambda>a. cosine_row a (B ! 0)) A)
      else Inl (BatchMismatchError (length A) (length B)))"

subsection \<open>\<^verbatim>\<open>nn.MultiheadAttention\<close> (with \<^verbatim>\<open>batch_first=True\<close>)\<close>

record mha =
  mha_embed_dim :: nat
  mha_num_heads :: nat
  mha_head_dim :: nat
  mha_dropout :: real
  in_proj_weight :: matrix
  in_proj_bias :: vec
  out_proj :: linear

definition MultiheadAttention ::
    "int \<Rightarrow> int \<Rightarrow> real \<Rightarrow> string \<Rightarrow> initializer \<Rightarrow> error + mha" where
  "MultiheadAttention embed_dim num_heads p name init =
     (if embed_dim \<le> 0 \<or> num_heads \<le> 0 then Inl (EmbedDimValueError embed_dim)
      else if (embed_dim div num_heads) * num_heads \<noteq> embed_dim
        then Inl (EmbedDimAssertionError embed_dim)
      else
        (case Linear embed_dim embed_dim (name @ ''.out_proj'') init of
           Inl e \<Rightarrow> Inl e
         | Inr proj \<Rightarrow>
             Inr \<lparr>mha_embed_dim = nat embed_dim, mha_num_heads = nat num_heads,
                  mha_head_dim = nat (embed_dim div num_heads), mha_dropout = p,
                  in_proj_weight = new_matrix (3 * nat embed_dim) (nat embed_dim)
                                     (init (name @ ''.in_proj_weight'')),
                  in_proj_bias = new_vector (3 * nat embed_dim)
                                     (init (name @ ''.in_proj_bias'')),
                  out_proj = proj\<rparr>))"

definition head :: "nat \<Rightarrow> nat \<Rightarrow> vec \<Rightarrow> vec" where
  "head dh h x = take dh (drop (h * dh) x)"

definition softmax :: "vec \<Rightarrow> vec" where
  "softmax xs = map (\<lambda>x. exp x / sum_list (map exp xs)) xs"

text \<open>Projection \<open>i\<close> of the packed input projection: 0 for queries, 1 for keys, 2 for values.\<close>

definition in_proj :: "mha \<Rightarrow> nat \<Rightarrow> vec \<Rightarrow> vec" where
  "in_proj a i x =
     map2 (\<lambda>row b. dot row x + b)
       (take (mha_embed_dim a) (drop (i * mha_embed_dim a) (in_proj_weight a)))
       (take (mha_embed_dim a) (drop (i * mha_embed_dim a) (in_proj_bias a)))"

text \<open>One head's output for one query row: the values weighted by the scaled scores.\<close>

definition attend :: "mha \<Rightarrow> bool \<Rightarrow> mask \<Rightarrow> vec \<Rightarrow> matrix \<Rightarrow> matrix \<Rightarrow> nat \<Rightarrow> vec" where
  "attend a training keep q K V h =
     (let dh = mha_head_dim a;
          scores = map (\<lambda>k. dot (head dh h q) (head dh h k) / sqrt (real dh)) K;
          w = dropout1 training (mha_dropout a) keep (softmax scores)
      in map (\<lambda>c. sum_list (map2 (\<lambda>wj v. wj * head dh h v ! c) w V)) [0..<dh])"

text \<open>One batch element: the heads' outputs side by side, for every query row.\<close>

definition attention_one :: "mha \<Rightarrow> bool \<Rightarrow> mask \<Rightarrow> matrix \<Rightarrow> matrix \<Rightarrow> matrix \<Rightarrow> matrix" where
  "attention_one a training keep query key val =
     (let Q = map (in_proj a 0) query;
          K = map (in_proj a 1) key;
          V = map (in_proj a 2) val
      in map (\<lambda>(i, q). concat (map (\<lambda>h. attend a training (\<lambda>ix. keep (h # i # ix)) q K V h)
                                  [0..<mha_num_heads a]))
           (enumerate 0 Q))"

text \<open>
  The first component of the module's result, \<^verbatim>\<open>attn_output\<close>; both callers drop
  the second one (the attention weights). Queries, keys and values must have the same
  batch size and rows of \<open>embed_dim\<close> elements, and keys and values the same shape.
\<close>

definition mha_forward ::
    "mha \<Rightarrow> bool \<Rightarrow> mask \<Rightarrow> tensor3 \<Rightarrow> tensor3 \<Rightarrow> tensor3 \<Rightarrow> error + tensor3" where
  "mha_forward a training keep query key val =
     (if length key \<noteq> length query then Inl (BatchMismatchError (length query) (length key))
      else if map length key \<noteq> map length val then Inl ShapeError
      else if \<not> (\<forall>M \<in> set (query @ key @ val). \<forall>r \<in> set M. length r = mha_embed_dim a)
        then Inl ShapeError
      else linear_forward3 (out_proj a)
             (map (\<lambda>(b, q, k, v). attention_one a training (\<lambda>ix. keep (b # ix)) q k v)
                (enumerate 0 (zip query (zip key val)))))"

subsection \<open>\<^verbatim>\<open>nn.LayerNorm\<close>\<close>

record layer_norm_layer =
  ln_shape :: nat
  ln_weight :: vec
  ln_bias :: vec
  ln_eps :: real

definition LayerNorm :: "int \<Rightarrow> error + layer_norm_layer" where
  "LayerNorm normalized_shape =
     (if normalized_shape < 0 then Inl NegativeDimensionError
      else Inr \<lparr>ln_shape = nat normalized_shape,
                ln_weight = replicate (nat normalized_shape) 1,
                ln_bias = replicate (nat normalized_shape) 0, ln_eps = 1 / 10 ^ 5\<rparr>)"

definition layer_norm_row :: "layer_norm_layer \<Rightarrow> vec \<Rightarrow> vec" where
  "layer_norm_row nl x =
     (let n = real (length x);
          mu = sum_list x / n;
          var = sum_list (map (\<lambda>xi. (xi - mu) ^ 2) x) / n
      in map (\<lambda>(xi, g, b). (xi - mu) / sqrt (var + ln_eps nl) * g + b)
           (zip x (zip (ln_weight nl) (ln_bias nl))))"

definition layer_norm_forward :: "layer_norm_layer \<Rightarrow> tensor3 \<Rightarrow> error + tensor3" where
  "layer_norm_forward nl X =
     (if \<forall>M \<in> set X. \<forall>x \<in> set M. length x = ln_shape nl
      then Inr (map (map (layer_norm_row nl)) X)
      else Inl ShapeError)"

text \<open>Elementwise sum of two tensors of the same shape.\<close>

definition add3 :: "tensor3 \<Rightarrow> tensor3 \<Rightarrow> tensor3" where
  "add3 X Y = map2 (map2 (map2 (+))) X Y"

section \<open>The two models\<close>

record base_embedding_model =
  embedding :: embedding_layer
  dropout :: real
  layer1 :: linear
  layer2 :: linear
  fc :: linear
  training :: bool

record cross_attention_model = base_embedding_model +
  attention :: mha
  layer_norm :: layer_norm_layer

text \<open>\<^verbatim>\<open>BaseEmbeddingModel.__init__\<close>; a new module is in training mode.\<close>

definition BaseEmbeddingModel_init ::
    "int \<Rightarrow> int \<Rightarrow> initializer \<Rightarrow> error + base_embedding_model" where
  "BaseEmbeddingModel_init vocab_size embedding_dim init =
     (case Embedding vocab_size embedding_dim ''embedding'' init of
        Inl e \<Rightarrow> Inl e
      | Inr emb \<Rightarrow>
     (case Linear embedding_dim (embedding_dim * 2) ''layer1'' init of
        Inl e \<Rightarrow> Inl e
      | Inr l1 \<Rightarrow>
     (case Linear (embedding_dim * 2) embedding_dim ''layer2'' init of
        Inl e \<Rightarrow> Inl e
      | Inr l2 \<Rightarrow>
     (case Linear embedding_dim vocab_size ''fc'' init of
        Inl e \<Rightarrow> Inl e
      | Inr out \<Rightarrow>
          Inr \<lparr>embedding = emb, dropout = 0.2, layer1 = l1, layer2 = l2, fc = out,
               training = True\<rparr>))))"

definition BaseEmbeddingModel_forward ::
    "base_embedding_model \<Rightarrow> mask \<Rightarrow> int list list \<Rightarrow> error + matrix" where
  "BaseEmbeddingModel_forward self keep x =
     (case embedding_forward (embedding self) x of
        Inl e \<Rightarrow> Inl e
      | Inr embedded \<Rightarrow>
     (let embedded = dropout3 (training self) (dropout self) (\<lambda>ix. keep (0 # ix)) embedded;
          pooled = mean_dim1 (emb_dim (embedding self)) embedded
      in case linear_forward (layer1 self) pooled of
        Inl e \<Rightarrow> Inl e
      | Inr h1 \<Rightarrow>
     (let x1 = dropout2 (training self) (dropout self) (\<lambda>ix. keep (1 # ix)) (relu h1)
      in case linear_forward (layer2 self) x1 of
        Inl e \<Rightarrow> Inl e
      | Inr h2 \<Rightarrow>
     (let x2 = dropout2 (training self) (dropout self) (\<lambda>ix. keep (2 # ix)) (relu h2)
      in linear_forward (fc self) x2))))"

definition BaseEmbeddingModel_get_similarity ::
    "base_embedding_model \<Rightarrow> int list list \<Rightarrow> int list list \<Rightarrow> error + vec" where
  "BaseEmbeddingModel_get_similarity self x1 x2 =
     (case embedding_forward (embedding self) x1 of
        Inl e \<Rightarrow> Inl e
      | Inr embedded1 \<Rightarrow>
     (case embedding_forward (embedding self) x2 of
        Inl e \<Rightarrow> Inl e
      | Inr embedded2 \<Rightarrow>
          cosine_similarity (mean_dim1 (emb_dim (embedding self)) embedded1)
                            (mean_dim1 (emb_dim (embedding self)) embedded2)))"

text \<open>\<^verbatim>\<open>CrossAttentionModel.__init__\<close>, the layers in the order the source makes them.\<close>

definition CrossAttentionModel_init ::
    "int \<Rightarrow> int \<Rightarrow> initializer \<Rightarrow> error + cross_attention_model" where
  "CrossAttentionModel_init vocab_size embedding_dim init =
     (case Embedding vocab_size embedding_dim ''embedding'' init of
        Inl e \<Rightarrow> Inl e
      | Inr emb \<Rightarrow>
     (case MultiheadAttention embedding_dim 4 0.1 ''attention'' init of
        Inl e \<Rightarrow> Inl e
      | Inr att \<Rightarrow>
     (case Linear embedding_dim (embedding_dim * 2) ''layer1'' init of
        Inl e \<Rightarrow> Inl e
      | Inr l1 \<Rightarrow>
     (case Linear (embedding_dim * 2) embedding_dim ''layer2'' init of
        Inl e \<Rightarrow> Inl e
      | Inr l2 \<Rightarrow>
     (case Linear embedding_dim vocab_size ''fc'' init of
        Inl e \<Rightarrow> Inl e
      | Inr out \<Rightarrow>
     (case LayerNorm embedding_dim of
        Inl e \<Rightarrow> Inl e
      | Inr nl \<Rightarrow>
          Inr \<lparr>embedding = emb, dropout = 0.2, layer1 = l1, layer2 = l2, fc = out,
               training = True, attention = att, layer_norm = nl\<rparr>))))))"

definition CrossAttentionModel_forward ::
    "cross_attention_model \<Rightarrow> mask \<Rightarrow> int list list \<Rightarrow> error + matrix" where
  "CrossAttentionModel_forward self keep x =
     (case embedding_forward (embedding self) x of
        Inl e \<Rightarrow> Inl e
      | Inr embedded \<Rightarrow>
     (let embedded = dropout3 (training self) (dropout self) (\<lambda>ix. keep (0 # ix)) embedded
      in case mha_forward (attention self) (training self) (\<lambda>ix. keep (3 # ix))
                embedded embedded embedded of
        Inl e \<Rightarrow> Inl e
      | Inr attended \<Rightarrow>
     (case layer_norm_forward (layer_norm self) (add3 attended embedded) of
        Inl e \<Rightarrow> Inl e
      | Inr attended \<Rightarrow>
     (let pooled = mean_dim1 (emb_dim (embedding self)) attended
      in case linear_forward (layer1 self) pooled of
        Inl e \<Rightarrow> Inl e
      | Inr h1 \<Rightarrow>
     (let x1 = dropout2 (training self) (dropout self) (\<lambda>ix. keep (1 # ix)) (relu h1)
      in case linear_forward (layer2 self) x1 of
        Inl e \<Rightarrow> Inl e
      | Inr h2 \<Rightarrow>
     (let x2 = dropout2 (training self) (dropout self) (\<lambda>ix. keep (2 # ix)) (relu h2)
      in linear_forward (fc self) x2))))))"

text \<open>
  \<^verbatim>\<open>torch.sum(attn_output * e1, dim=-1)\<close> sums over the last dimension only: one
  number for every position of every sequence of \<^verbatim>\<open>x1\<close>.
\<close>

definition CrossAttentionModel_get_similarity ::
    "cross_attention_model \<Rightarrow> mask \<Rightarrow> int list list \<Rightarrow> int list list \<Rightarrow> error + matrix" where
  "CrossAttentionModel_get_similarity self keep x1 x2 =
     (case embedding_forward (embedding self) x1 of
        Inl e \<Rightarrow> Inl e
      | Inr e1 \<Rightarrow>
     (case embedding_forward (embedding self) x2 of
        Inl e \<Rightarrow> Inl e
      | Inr e2 \<Rightarrow>
     (case mha_forward (attention self) (training self) keep e1 e2 e2 of
        Inl e \<Rightarrow> Inl e
      | Inr attn_output \<Rightarrow>
          Inr (map2 (\<lambda>A E. map2 (\<lambda>a e. dot a e / sqrt (real (emb_dim (embedding self)))) A E)
                 attn_output e1))))"

section \<open>The comparison harness\<close>

subsection \<open>Train/test split and data loaders\<close>

record data_loader =
  dataset :: "example list"
  batch_size :: nat
  shuffle :: bool

text \<open>
  \<^verbatim>\<open>DataLoader(dataset, batch_size=..., shuffle=...)\<close>. A shuffling loader builds a
  random sampler, which refuses an empty dataset; then the batch sampler refuses a batch
  size that is not positive.
\<close>

definition DataLoader :: "example list \<Rightarrow> nat \<Rightarrow> bool \<Rightarrow> error + data_loader" where
  "DataLoader ds bs sh =
     (if sh \<and> ds = [] then Inl ValueError
      else if bs = 0 then Inl ValueError
      else Inr \<lparr>dataset = ds, batch_size = bs, shuffle = sh\<rparr>)"

text \<open>
  \<^verbatim>\<open>train_size = int(0.8 * len(data))\<close>, with the product taken exactly where Python
  rounds it to a double; \<^verbatim>\<open>int\<close> truncates, which is the floor of a number that is
  not negative. Slicing a tensor along its first dimension is \<open>take\<close> and \<open>drop\<close>.
  The training loader is made first; when it fails, the test loader is never made.
\<close>

definition make_loaders ::
    "int list list \<Rightarrow> int list \<Rightarrow> error + (data_loader \<times> data_loader)" where
  "make_loaders data labels =
     (let train_size = nat \<lfloor>0.8 * real (length data)\<rfloor>
      in case DataLoader (zip (take train_size data) (take train_size labels)) 32 True of
        Inl e \<Rightarrow> Inl e
      | Inr train_data \<Rightarrow>
     (case DataLoader (zip (drop train_size data) (drop train_size labels)) 32 False of
        Inl e \<Rightarrow> Inl e
      | Inr test_data \<Rightarrow> Inr (train_data, test_data)))"

subsection \<open>\<^verbatim>\<open>run_comparison\<close>\<close>

datatype model = Base base_embedding_model | Cross cross_attention_model

text \<open>
  \<^verbatim>\<open>train_and_measure\<close> is called by the notebook but defined in none of its cells,
  so it is a parameter: given a model, the two loaders and the epoch count, it turns
  the state of the world \<open>'w\<close> (the clock, the output, the optimiser's effect) into a
  results structure \<open>'r\<close> and a new state, or fails.
\<close>

type_synonym ('r, 'w) trainer =
  "model \<Rightarrow> data_loader \<Rightarrow> data_loader \<Rightarrow> nat \<Rightarrow> 'w \<Rightarrow> error + ('r \<times> 'w)"

text \<open>
  The returned dictionary is the list of its items in insertion order. The initial
  parameter values of the two models are given by two initializers.
\<close>

definition run_comparison ::
    "('r, 'w) trainer \<Rightarrow> initializer \<Rightarrow> initializer \<Rightarrow> int \<Rightarrow> int \<Rightarrow> int \<Rightarrow>
     generators \<Rightarrow> 'w \<Rightarrow> error + ((string \<times> 'r) list \<times> 'w)" where
  "run_comparison train_and_measure init_base init_cross vocab_size embedding_dim
       dataset_size gs w =
     (case generate_data vocab_size dataset_size gs of
        Inl e \<Rightarrow> Inl e
      | Inr ((data, labels), gs') \<Rightarrow>
     (case make_loaders data labels of
        Inl e \<Rightarrow> Inl e
      | Inr (train_data, test_data) \<Rightarrow>
     (case BaseEmbeddingModel_init vocab_size embedding_dim init_base of
        Inl e \<Rightarrow> Inl e
      | Inr base_model \<Rightarrow>
     (case CrossAttentionModel_init vocab_size embedding_dim init_cross of
        Inl e \<Rightarrow> Inl e
      | Inr cross_attn_model \<Rightarrow>
     (case train_and_measure (Base base_model) train_data test_data 20 w of
        Inl e \<Rightarrow> Inl e
      | Inr (base_results, w1) \<Rightarrow>
     (case train_and_measure (Cross cross_attn_model) train_data test_data 20 w1 of
        Inl e \<Rightarrow> Inl e
      | Inr (cross_attn_results, w2) \<Rightarrow>
          Inr ([(''base_model'', base_results), (''cross_attention'', cross_attn_results)],
               w2)))))))"

text \<open>
  A trainer that does no training and records each call it receives (which model, how
  many epochs, the sizes of the two datasets); it returns the epoch count.
\<close>

definition recording_trainer :: "(nat, (string \<times> nat \<times> nat \<times> nat) list) trainer" where
  "recording_trainer m train_data test_data epochs calls =
     Inr (epochs,
          calls @ [(case m of Base b \<Rightarrow> ''BaseEmbeddingModel'' | Cross c \<Rightarrow> ''CrossAttentionModel'',
                    epochs, length (dataset train_data), length (dataset test_data))])"

subsection \<open>\<^verbatim>\<open>print_results\<close>\<close>

text \<open>The Python values a results structure is made of.\<close>

datatype pyval =
    PFloat real
  | PStr string
  | PList "pyval list"
  | PDict "(string \<times> pyval) list"

text \<open>\<^verbatim>\<open>v[key]\<close> for a string key.\<close>

fun getitem :: "pyval \<Rightarrow> string \<Rightarrow> error + pyval" where
  "getitem (PDict d) key = (case map_of d key of None \<Rightarrow> Inl (KeyError key) | Some v \<Rightarrow> Inr v)"
| "getitem (PList xs) key = Inl TypeError"
| "getitem (PStr s) key = Inl TypeError"
| "getitem (PFloat x) key = Inl TypeError"

text \<open>\<^verbatim>\<open>v[-1]\<close>; no dictionary of the model has the key \<^verbatim>\<open>-1\<close>.\<close>

fun getitem_last :: "pyval \<Rightarrow> error + pyval" where
  "getitem_last (PList xs) = (if xs = [] then Inl IndexError else Inr (last xs))"
| "getitem_last (PStr s) = (if s = [] then Inl IndexError else Inr (PStr [last s]))"
| "getitem_last (PDict d) = Inl (KeyError ''-1'')"
| "getitem_last (PFloat x) = Inl TypeError"

text \<open>
  \<^verbatim>\<open>f"{v:.2f}"\<close> and \<^verbatim>\<open>f"{v:.4f}"\<close>: the decimal rendering of a float with the given
  number of digits is the parameter \<open>fmt\<close>; the other values refuse the format.
\<close>

fun format_f :: "(nat \<Rightarrow> real \<Rightarrow> string) \<Rightarrow> nat \<Rightarrow> pyval \<Rightarrow> error + string" where
  "format_f fmt digits (PFloat x) = Inr (fmt digits x)"
| "format_f fmt digits (PStr s) = Inl ValueError"
| "format_f fmt digits (PList xs) = Inl TypeError"
| "format_f fmt digits (PDict d) = Inl TypeError"

definition and_then :: "error + 'a \<Rightarrow> ('a \<Rightarrow> error + 'b) \<Rightarrow> error + 'b" where
  "and_then r f = (case r of Inl e \<Rightarrow> Inl e | Inr x \<Rightarrow> f x)"

text \<open>\<^verbatim>\<open>results[name]['training_time']\<close>, formatted with two digits.\<close>

definition training_time_text ::
    "(nat \<Rightarrow> real \<Rightarrow> string) \<Rightarrow> pyval \<Rightarrow> string \<Rightarrow> error + string" where
  "training_time_text fmt results name =
     and_then (getitem results name) (\<lambda>r.
     and_then (getitem r ''training_time'') (\<lambda>t.
     format_f fmt 2 t))"

text \<open>\<^verbatim>\<open>results[name]['metrics'][metric][-1]\<close>, formatted with four digits.\<close>

definition final_metric_text ::
    "(nat \<Rightarrow> real \<Rightarrow> string) \<Rightarrow> pyval \<Rightarrow> string \<Rightarrow> string \<Rightarrow> error + string" where
  "final_metric_text fmt results name metric =
     and_then (getitem results name) (\<lambda>r.
     and_then (getitem r ''metrics'') (\<lambda>ms.
     and_then (getitem ms metric) (\<lambda>vs.
     and_then (getitem_last vs) (\<lambda>v.
     format_f fmt 4 v))))"

text \<open>
  Printing stops at the first line whose text cannot be computed; the lines printed
  before it stay printed. The result is the output and the exception, if any.
\<close>

fun emit :: "(error + string) list \<Rightarrow> string list \<Rightarrow> string list \<times> error option" where
  "emit [] out = (out, None)"
| "emit (Inl e # rest) out = (out, Some e)"
| "emit (Inr line # rest) out = emit rest (out @ [line])"

definition print_results ::
    "(nat \<Rightarrow> real \<Rightarrow> string) \<Rightarrow> pyval \<Rightarrow> string \<Rightarrow> string list \<times> error option" where
  "print_results fmt results configuration =
     emit
       [Inr (CHR 0x0A # ''=== Results for '' @ configuration @ '' ===''),
        Inr (CHR 0x0A # ''Base Model:''),
        map_sum id (\<lambda>t. ''Training Time: '' @ t @ '' seconds'')
          (training_time_text fmt results ''base_model''),
        map_sum id (\<lambda>t. ''Final Training Loss: '' @ t)
          (final_metric_text fmt results ''base_model'' ''train_loss''),
        map_sum id (\<lambda>t. ''Final Test Loss: '' @ t)
          (final_metric_text fmt results ''base_model'' ''test_loss''),
        map_sum id (\<lambda>t. ''Final Accuracy: '' @ t)
          (final_metric_text fmt results ''base_model'' ''accuracy''),
        Inr (CHR 0x0A # ''Cross-Attention Model:''),
        map_sum id (\<lambda>t. ''Training Time: '' @ t @ '' seconds'')
          (training_time_text fmt results ''cross_attention''),
        map_sum id (\<lambda>t. ''Final Training Loss: '' @ t)
          (final_metric_text fmt results ''cross_attention'' ''train_loss''),
        map_sum id (\<lambda>t. ''Final Test Loss: '' @ t)
          (final_metric_text fmt results ''cross_attention'' ''test_loss''),
        map_sum id (\<lambda>t. ''Final Accuracy: '' @ t)
          (final_metric_text fmt results ''cross_attention'' ''accuracy'')]
       []"

section \<open>Parameter shapes\<close>

text \<open>
  The shapes that the constructors give to the parameters. Training changes the values
  of the parameters and keeps their shapes, so what is proved from these predicates
  holds for a model before and after training, in training and in evaluation mode.
\<close>

definition linear_shape :: "linear \<Rightarrow> nat \<Rightarrow> nat \<Rightarrow> bool" where
  "linear_shape l n_in n_out =
     (in_features l = n_in \<and> out_features l = n_out \<and>
      length (lin_weight l) = n_out \<and> list_all (\<lambda>row. length row = n_in) (lin_weight l) \<and>
      length (lin_bias l) = n_out)"

definition embedding_shape :: "embedding_layer \<Rightarrow> nat \<Rightarrow> nat \<Rightarrow> bool" where
  "embedding_shape emb num d =
     (emb_num emb = num \<and> emb_dim emb = d \<and>
      length (emb_weight emb) = num \<and> list_all (\<lambda>row. length row = d) (emb_weight emb))"

definition mha_shape :: "mha \<Rightarrow> nat \<Rightarrow> bool" where
  "mha_shape a d =
     (mha_embed_dim a = d \<and> mha_num_heads a * mha_head_dim a = d \<and>
      length (in_proj_weight a) = 3 * d \<and>
      list_all (\<lambda>row. length row = d) (in_proj_weight a) \<and>
      length (in_proj_bias a) = 3 * d \<and>
      linear_shape (out_proj a) d d)"

definition layer_norm_shape :: "layer_norm_layer \<Rightarrow> nat \<Rightarrow> bool" where
  "layer_norm_shape nl d =
     (ln_shape nl = d \<and> length (ln_weight nl) = d \<and> length (ln_bias nl) = d)"

definition base_shapes :: "('a base_embedding_model_scheme) \<Rightarrow> nat \<Rightarrow> nat \<Rightarrow> bool" where
  "base_shapes m vocab_size embedding_dim =
     (embedding_shape (embedding m) vocab_size embedding_dim \<and>
      linear_shape (layer1 m) embedding_dim (embedding_dim * 2) \<and>
      linear_shape (layer2 m) (embedding_dim * 2) embedding_dim \<and>
      linear_shape (fc m) embedding_dim vocab_size)"

definition cross_shapes :: "cross_attention_model \<Rightarrow> nat \<Rightarrow> nat \<Rightarrow> bool" where
  "cross_shapes m vocab_size embedding_dim =
     (base_shapes m vocab_size embedding_dim \<and>
      mha_shape (attention m) embedding_dim \<and>
      layer_norm_shape (layer_norm m) embedding_dim)"

section \<open>Well-formed results structures\<close>

text \<open>
  The entry of one model in a results structure, as \<^verbatim>\<open>print_results\<close> reads it: under
  the model's name a dictionary with a float under \<^verbatim>\<open>training_time\<close> and, under
  \<^verbatim>\<open>metrics\<close>, a dictionary with the three per-epoch lists of floats. Other keys may
  be present.
\<close>

definition model_entry ::
    "pyval \<Rightarrow> string \<Rightarrow> real \<Rightarrow> real list \<Rightarrow> real list \<Rightarrow> real list \<Rightarrow> bool" where
  "model_entry results name t train_loss test_loss accuracy =
     (case getitem results name of
        Inl e \<Rightarrow> False
      | Inr r \<Rightarrow>
          getitem r ''training_time'' = Inr (PFloat t) \<and>
          (case getitem r ''metrics'' of
             Inl e \<Rightarrow> False
           | Inr ms \<Rightarrow>
               getitem ms ''train_loss'' = Inr (PList (map PFloat train_loss)) \<and>
               getitem ms ''test_loss'' = Inr (PList (map PFloat test_loss)) \<and>
               getitem ms ''accuracy'' = Inr (PList (map PFloat accuracy))))"

text \<open>A results structure of two epochs, for concrete evaluation.\<close>

definition example_results :: pyval where
  "example_results =
     PDict [(''base_model'',
             PDict [(''training_time'', PFloat 0.5),
                    (''metrics'',
                     PDict [(''train_loss'', PList [PFloat 3, PFloat 2]),
                            (''test_loss'', PList [PFloat 4, PFloat 3]),
                            (''accuracy'', PList [PFloat 0.25, PFloat 0.5])])]),
            (''cross_attention'',
             PDict [(''training_time'', PFloat 2.5),
                    (''metrics'',
                     PDict [(''train_loss'', PList [PFloat 3, PFloat 1]),
                            (''test_loss'', PList [PFloat 4, PFloat 2]),
                            (''accuracy'', PList [PFloat 0.25, PFloat 0.75])])])]"

section \<open>Properties of the data generator\<close>

lemma randint_Inr:
  assumes "randint low high n g = Inr (xs, g')"
  shows "length xs = n" and "\<forall>x \<in> set xs. low \<le> x \<and> x < high" and "low < high"
    and "high \<le> int64_max"
proof -
  from assms have lh: "low < high" and hi: "high \<le> int64_max"
    and xs: "xs = map (\<lambda>i. low + int (g i mod nat (high - low))) [0..<n]"
    by (auto simp: randint_def split: if_splits)
  show "length xs = n" using xs by simp
  show "low < high" by (rule lh)
  show "high \<le> int64_max" by (rule hi)
  show "\<forall>x \<in> set xs. low \<le> x \<and> x < high"
  proof
    fix x assume "x \<in> set xs"
    then obtain i where x: "x = low + int (g i mod nat (high - low))"
      using xs by auto
    have "g i mod nat (high - low) < nat (high - low)"
      using lh by simp
    then show "low \<le> x \<and> x < high" using x lh by linarith
  qed
qed

lemma randint_ok:
  assumes "low < high" and "- int64_max - 1 \<le> low" and "high \<le> int64_max"
  shows "\<exists>xs. randint low high n g = Inr (xs, advance n g)"
  using assms by (simp add: randint_def)

lemma to_int64_fits:
  assumes "- int64_max - 1 \<le> k" and "k \<le> int64_max"
  shows "to_int64 k = Inr k"
  using assms by (simp add: to_int64_def)

lemma remainder_length:
  assumes "remainder xs k = Inr ys"
  shows "length ys = length xs"
  using assms by (auto simp: remainder_def split: sum.splits if_splits)

lemma remainder_Inr:
  assumes "remainder xs k = Inr ys" and "k \<le> int64_max"
  shows "ys = map (\<lambda>x. x mod k) xs" and "k \<noteq> 0"
  using assms by (auto simp: remainder_def to_int64_def split: sum.splits if_splits)

lemma gen_example_pattern1:
  assumes "gen_example v gs = Inr ((seq, label), gs')" and "pattern1 gs"
    and "v \<le> int64_max"
  shows "length seq = 10"
    and "\<forall>t \<in> set seq. 0 \<le> t \<and> t < v div 4"
    and "label = (seq ! 0 + seq ! (length seq - 1)) mod v"
    and "0 < v div 4"
proof -
  obtain np tg where gs: "gs = (np, tg)" by (cases gs)
  obtain u np' where u: "np_random np = (u, np')" by (cases "np_random np")
  have lt: "u < 0.5" using assms(2) gs u by (simp add: pattern1_def)
  from assms(1) gs u lt obtain tg' lab where
    r: "randint 0 (v div 4) 10 tg = Inr (seq, tg')" and
    m: "remainder [seq ! 0 + seq ! (length seq - 1)] v = Inr lab" and
    l: "label = lab ! 0"
    by (auto simp: gen_example_def split: sum.splits prod.splits)
  show "length seq = 10" using randint_Inr(1)[OF r] .
  show "\<forall>t \<in> set seq. 0 \<le> t \<and> t < v div 4" using randint_Inr(2)[OF r] .
  show "0 < v div 4" using randint_Inr(3)[OF r] .
  show "label = (seq ! 0 + seq ! (length seq - 1)) mod v"
    using remainder_Inr(1)[OF m assms(3)] l by simp
qed

lemma gen_example_pattern2:
  assumes "gen_example v gs = Inr ((seq, label), gs')" and "\<not> pattern1 gs"
    and "v \<le> int64_max"
  shows "\<exists>b noise. 0 \<le> b \<and> b < v div 4 \<and> length noise = 10 \<and>
           (\<forall>n \<in> set noise. - 2 \<le> n \<and> n \<le> 2) \<and>
           seq = map (\<lambda>n. (b + n) mod v) noise \<and> label = (b + 3) mod v"
proof -
  obtain np tg where gs: "gs = (np, tg)" by (cases gs)
  obtain u np' where u: "np_random np = (u, np')" by (cases "np_random np")
  have lt: "\<not> u < 0.5" using assms(2) gs u by (simp add: pattern1_def)
  from assms(1) gs u lt obtain base_token tg1 noise tg2 lab where
    r1: "randint 0 (v div 4) 1 tg = Inr (base_token, tg1)" and
    r2: "randint (- 2) 3 10 tg1 = Inr (noise, tg2)" and
    m1: "remainder (map (\<lambda>n. base_token ! 0 + n) noise) v = Inr seq" and
    m2: "remainder [base_token ! 0 + 3] v = Inr lab" and
    l: "label = lab ! 0"
    by (auto simp: gen_example_def split: sum.splits prod.splits)
  have "length base_token = 1" using randint_Inr(1)[OF r1] .
  then have "base_token ! 0 \<in> set base_token" by simp
  then have b: "0 \<le> base_token ! 0 \<and> base_token ! 0 < v div 4"
    using randint_Inr(2)[OF r1] by blast
  have n: "\<forall>n \<in> set noise. - 2 \<le> n \<and> n \<le> 2"
    using randint_Inr(2)[OF r2] by auto
  have s: "seq = map (\<lambda>n. (base_token ! 0 + n) mod v) noise"
    using remainder_Inr(1)[OF m1 assms(3)] by (simp add: comp_def)
  have lb: "label = (base_token ! 0 + 3) mod v"
    using remainder_Inr(1)[OF m2 assms(3)] l by simp
  show ?thesis
    using b n s lb randint_Inr(1)[OF r2] by blast
qed

text \<open>Without a bound on the vocabulary size: the shape of an example, and that one was drawn.\<close>

lemma gen_example_shape:
  assumes "gen_example v gs = Inr ((seq, label), gs')"
  shows "length seq = 10" and "4 \<le> v"
proof -
  obtain np tg where gs: "gs = (np, tg)" by (cases gs)
  obtain u np' where u: "np_random np = (u, np')" by (cases "np_random np")
  have "length seq = 10 \<and> 0 < v div 4"
  proof (cases "u < 0.5")
    case True
    with assms gs u obtain tg' where
      r: "randint 0 (v div 4) 10 tg = Inr (seq, tg')"
      by (auto simp: gen_example_def split: sum.splits prod.splits)
    show ?thesis using randint_Inr(1,3)[OF r] by simp
  next
    case False
    with assms gs u obtain base_token tg1 noise tg2 where
      r1: "randint 0 (v div 4) 1 tg = Inr (base_token, tg1)" and
      r2: "randint (- 2) 3 10 tg1 = Inr (noise, tg2)" and
      m1: "remainder (map (\<lambda>n. base_token ! 0 + n) noise) v = Inr seq"
      by (auto simp: gen_example_def split: sum.splits prod.splits)
    show ?thesis
      using randint_Inr(3)[OF r1] randint_Inr(1)[OF r2] remainder_length[OF m1] by simp
  qed
  then show "length seq = 10" and "4 \<le> v" by linarith+
qed

lemma gen_example_valid:
  assumes "gen_example v gs = Inr ((seq, label), gs')" and "v \<le> int64_max"
  shows "length seq = 10" and "\<forall>t \<in> set seq. 0 \<le> t \<and> t < v"
    and "0 \<le> label \<and> label < v" and "4 \<le> v"
proof -
  have v4: "4 \<le> v" using gen_example_shape(2)[OF assms(1)] .
  have all: "(\<forall>t \<in> set seq. 0 \<le> t \<and> t < v) \<and> 0 \<le> label \<and> label < v"
  proof (cases "pattern1 gs")
    case True
    note p = gen_example_pattern1[OF assms(1) True assms(2)]
    have "v div 4 \<le> v" using v4 by linarith
    then have "\<forall>t \<in> set seq. 0 \<le> t \<and> t < v" using p(2) by fastforce
    moreover have "0 \<le> label \<and> label < v" using p(3) v4 by simp
    ultimately show ?thesis by blast
  next
    case False
    from gen_example_pattern2[OF assms(1) False assms(2)] obtain b noise where
      s: "seq = map (\<lambda>n. (b + n) mod v) noise" and lb: "label = (b + 3) mod v"
      by blast
    have "\<forall>t \<in> set seq. 0 \<le> t \<and> t < v" using s v4 by auto
    moreover have "0 \<le> label \<and> label < v" using lb v4 by simp
    ultimately show ?thesis by simp
  qed
  show "length seq = 10" using gen_example_shape(1)[OF assms(1)] .
  show "4 \<le> v" by (rule v4)
  show "\<forall>t \<in> set seq. 0 \<le> t \<and> t < v" and "0 \<le> label \<and> label < v"
    using all by blast+
qed

lemma advance_advance: "advance m (advance n g) = advance (n + m) g"
  by (simp add: advance_def ac_simps)

lemma randint_eq:
  assumes "low < high" and "- int64_max - 1 \<le> low" and "high \<le> int64_max"
  shows "randint low high n g =
           Inr (map (\<lambda>i. low + int (g i mod nat (high - low))) [0..<n], advance n g)"
  using assms by (simp add: randint_def)

lemma remainder_eq:
  assumes "k \<noteq> 0" and "- int64_max - 1 \<le> k" and "k \<le> int64_max"
  shows "remainder xs k = Inr (map (\<lambda>x. x mod k) xs)"
  using assms by (simp add: remainder_def to_int64_fits)

lemma gen_example_ok:
  assumes "4 \<le> v" and "v \<le> int64_max"
  shows "\<exists>ex. gen_example v gs =
           Inr (ex, (advance 1 (fst gs), advance (if pattern1 gs then 10 else 11) (snd gs)))"
proof -
  obtain np tg where gs: "gs = (np, tg)" by (cases gs)
  have d: "0 < v div 4" "v div 4 \<le> int64_max" using assms by linarith+
  have "0 < int64_max" by (simp add: int64_max_def)
  then have b: "- int64_max - 1 \<le> 0" "- int64_max - 1 \<le> v" using assms(1) by linarith+
  note r1 = randint_eq[OF d(1) b(1) d(2)]
  have r2: "randint (- 2) 3 n g =
      Inr (map (\<lambda>i. - 2 + int (g i mod nat (3 - - 2))) [0..<n], advance n g)" for n g
    by (rule randint_eq) (simp_all add: int64_max_def)
  have v0: "v \<noteq> 0" using assms(1) by linarith
  note m = remainder_eq[OF v0 b(2) assms(2)]
  show ?thesis
  proof (cases "pattern1 gs")
    case True
    then have "fst (np_random np) < 0.5" by (simp add: pattern1_def gs)
    then show ?thesis using True
      by (simp add: gs gen_example_def r1 m split: prod.splits) (simp add: np_random_def)
  next
    case False
    then have "\<not> fst (np_random np) < 0.5" by (simp add: pattern1_def gs)
    then show ?thesis using False
      by (simp add: gs gen_example_def r1 r2 m advance_advance split: prod.splits)
         (simp add: np_random_def)
  qed
qed

lemma gen_example_fail:
  assumes "v < 4"
  shows "gen_example v gs =
           Inl (if v div 4 < - int64_max - 1 then OverflowError else RandomRangeError 0 (v div 4))"
proof -
  obtain np tg where gs: "gs = (np, tg)" by (cases gs)
  have d: "v div 4 \<le> 0" using assms by linarith
  then have "\<not> int64_max < v div 4" by (simp add: int64_max_def)
  then show ?thesis using d
    by (simp add: gs gen_example_def np_random_def randint_def int64_max_def)
qed

lemma gen_loop_inv:
  assumes "gen_loop n v gs acc = Inr (acc', gs')"
    and "\<And>gs seq label gs1. gen_example v gs = Inr ((seq, label), gs1) \<Longrightarrow> Q seq \<and> R label"
  shows "\<exists>ss ls. fst acc' = fst acc @ ss \<and> snd acc' = snd acc @ ls \<and>
           length ss = n \<and> length ls = n \<and>
           (\<forall>s \<in> set ss. Q s) \<and> (\<forall>l \<in> set ls. R l)"
  using assms(1)
proof (induction n arbitrary: gs acc)
  case 0
  then show ?case by simp
next
  case (Suc n)
  from Suc.prems obtain seq label gs1 where
    ex: "gen_example v gs = Inr ((seq, label), gs1)" and
    rest: "gen_loop n v gs1 (fst acc @ [seq], snd acc @ [label]) = Inr (acc', gs')"
    by (auto split: sum.splits)
  from Suc.IH[OF rest] obtain ss ls where
    a: "fst acc' = (fst acc @ [seq]) @ ss" "snd acc' = (snd acc @ [label]) @ ls"
       "length ss = n" "length ls = n"
       "\<forall>s \<in> set ss. Q s" "\<forall>l \<in> set ls. R l"
    by auto
  note g = assms(2)[OF ex]
  have "fst acc' = fst acc @ (seq # ss)" "snd acc' = snd acc @ (label # ls)"
    using a(1,2) by simp_all
  moreover have "length (seq # ss) = Suc n" "length (label # ls) = Suc n"
    using a(3,4) by simp_all
  moreover have "\<forall>s \<in> set (seq # ss). Q s" using a(5) g by simp
  moreover have "\<forall>l \<in> set (label # ls). R l" using a(6) g by simp
  ultimately show ?case by blast
qed

lemma gen_loop_length:
  assumes "gen_loop n v gs acc = Inr (acc', gs')"
  shows "length (fst acc') = length (fst acc) + n" and "length (snd acc') = length (snd acc) + n"
proof -
  from gen_loop_inv[OF assms, where Q = "\<lambda>s. True" and R = "\<lambda>l. True"] obtain ss ls where
    "fst acc' = fst acc @ ss" "snd acc' = snd acc @ ls" "length ss = n" "length ls = n"
    by auto
  then show "length (fst acc') = length (fst acc) + n"
    and "length (snd acc') = length (snd acc) + n" by simp_all
qed

lemma gen_loop_valid:
  assumes "gen_loop n v gs acc = Inr (acc', gs')" and "v \<le> int64_max"
  shows "\<exists>ss ls. fst acc' = fst acc @ ss \<and> snd acc' = snd acc @ ls \<and>
           length ss = n \<and> length ls = n \<and>
           (\<forall>s \<in> set ss. length s = 10 \<and> (\<forall>t \<in> set s. 0 \<le> t \<and> t < v)) \<and>
           (\<forall>l \<in> set ls. 0 \<le> l \<and> l < v)"
proof (rule gen_loop_inv[OF assms(1)])
  fix gs seq label gs1
  assume ex: "gen_example v gs = Inr ((seq, label), gs1)"
  show "(length seq = 10 \<and> (\<forall>t \<in> set seq. 0 \<le> t \<and> t < v)) \<and> (0 \<le> label \<and> label < v)"
    using gen_example_valid(1,2,3)[OF ex assms(2)] by blast
qed

lemma gen_loop_ok:
  assumes "4 \<le> v" and "v \<le> int64_max"
  shows "\<exists>r. gen_loop n v gs acc = Inr r"
proof (induction n arbitrary: gs acc)
  case 0
  show ?case by simp
next
  case (Suc n)
  from gen_example_ok[OF assms] obtain ex gs1 where
    ex: "gen_example v gs = Inr (ex, gs1)" by blast
  obtain seq label where "ex = (seq, label)" by (cases ex)
  then show ?case using ex Suc.IH by simp
qed

lemma gen_loop_fail:
  assumes "v < 4"
  shows "gen_loop (Suc n) v gs acc =
           Inl (if v div 4 < - int64_max - 1 then OverflowError else RandomRangeError 0 (v div 4))"
  by (simp add: gen_example_fail[OF assms] del: gen_example_fail)

lemma generate_data_Inr:
  assumes "generate_data v n gs = Inr ((data, labels), gs')"
  shows "int (length data) = n" and "int (length labels) = n" and "1 \<le> n" and "4 \<le> v"
    and "gen_loop (nat n) v gs ([], []) = Inr ((data, labels), gs')"
proof -
  from assms have lp: "gen_loop (nat n) v gs ([], []) = Inr ((data, labels), gs')"
    and ne: "data \<noteq> []"
    by (auto simp: generate_data_def stack_def split: sum.splits if_splits)
  have a: "length data = nat n" "length labels = nat n"
    using gen_loop_length[OF lp] by simp_all
  have pos: "1 \<le> n" using ne a(1) by (cases "1 \<le> n") auto
  show "1 \<le> n" by (rule pos)
  show "int (length data) = n" "int (length labels) = n" using a pos by simp_all
  show "gen_loop (nat n) v gs ([], []) = Inr ((data, labels), gs')" by (rule lp)
  obtain m where m: "nat n = Suc m" using pos by (cases "nat n") auto
  from lp m obtain ex gs1 where "gen_example v gs = Inr (ex, gs1)"
    by (auto split: sum.splits)
  then show "4 \<le> v" using gen_example_shape(2)[of v gs "fst ex" "snd ex" gs1] by simp
qed

lemma generate_data_valid:
  assumes "generate_data v n gs = Inr ((data, labels), gs')" and "v \<le> int64_max"
  shows "\<forall>s \<in> set data. length s = 10 \<and> (\<forall>t \<in> set s. 0 \<le> t \<and> t < v)"
    and "\<forall>l \<in> set labels. 0 \<le> l \<and> l < v"
proof -
  note lp = generate_data_Inr(5)[OF assms(1)]
  from gen_loop_valid[OF lp assms(2)] show
    "\<forall>s \<in> set data. length s = 10 \<and> (\<forall>t \<in> set s. 0 \<le> t \<and> t < v)"
    and "\<forall>l \<in> set labels. 0 \<le> l \<and> l < v"
    by auto
qed

lemma generate_data_ok:
  assumes "4 \<le> v" and "v \<le> int64_max" and "1 \<le> n"
  shows "\<exists>data labels gs'. generate_data v n gs = Inr ((data, labels), gs')"
proof -
  from gen_loop_ok[OF assms(1,2)] obtain acc gs' where
    lp: "gen_loop (nat n) v gs ([], []) = Inr (acc, gs')" by fastforce
  from gen_loop_length(1)[OF lp] have "length (fst acc) = nat n" by simp
  then have "fst acc \<noteq> []" using assms(3) by auto
  then show ?thesis using lp
    by (cases acc) (simp add: generate_data_def stack_def)
qed

section \<open>The constructors establish the parameter shapes\<close>


lemma length_new_vector: "length (new_vector n f) = n"
  by (simp add: new_vector_def)

lemma new_matrix_shape:
  "length (new_matrix r c f) = r" "list_all (\<lambda>row. length row = c) (new_matrix r c f)"
  by (simp_all add: new_matrix_def list_all_iff)

lemma Linear_shape:
  assumes "Linear n_in n_out name init = Inr l"
  shows "linear_shape l (nat n_in) (nat n_out)" and "0 \<le> n_in" and "0 \<le> n_out"
  using assms
  by (auto simp: Linear_def linear_shape_def length_new_vector new_matrix_shape split: if_splits)

lemma Linear_ok:
  assumes "0 \<le> n_in" and "0 \<le> n_out"
  shows "\<exists>l. Linear n_in n_out name init = Inr l"
  using assms by (simp add: Linear_def)

lemma Embedding_shape:
  assumes "Embedding num d name init = Inr emb"
  shows "embedding_shape emb (nat num) (nat d)" and "0 \<le> num" and "0 \<le> d"
  using assms
  by (auto simp: Embedding_def embedding_shape_def new_matrix_shape split: if_splits)

lemma Embedding_ok:
  assumes "0 \<le> num" and "0 \<le> d"
  shows "\<exists>emb. Embedding num d name init = Inr emb"
  using assms by (simp add: Embedding_def)

lemma LayerNorm_shape:
  assumes "LayerNorm d = Inr nl"
  shows "layer_norm_shape nl (nat d)"
  using assms by (auto simp: LayerNorm_def layer_norm_shape_def split: if_splits)

lemma MultiheadAttention_shape:
  assumes "MultiheadAttention embed_dim num_heads p name init = Inr a"
  shows "mha_shape a (nat embed_dim)" and "0 < embed_dim" and "0 < num_heads"
    and "embed_dim mod num_heads = 0" and "mha_num_heads a = nat num_heads"
proof -
  from assms have pos: "0 < embed_dim" "0 < num_heads"
    and dv: "(embed_dim div num_heads) * num_heads = embed_dim"
    by (auto simp: MultiheadAttention_def split: if_splits)
  from assms pos dv obtain proj where
    proj: "Linear embed_dim embed_dim (name @ ''.out_proj'') init = Inr proj" and
    a: "a = \<lparr>mha_embed_dim = nat embed_dim, mha_num_heads = nat num_heads,
                  mha_head_dim = nat (embed_dim div num_heads), mha_dropout = p,
                  in_proj_weight = new_matrix (3 * nat embed_dim) (nat embed_dim)
                                     (init (name @ ''.in_proj_weight'')),
                  in_proj_bias = new_vector (3 * nat embed_dim)
                                     (init (name @ ''.in_proj_bias'')),
                  out_proj = proj\<rparr>"
    by (auto simp: MultiheadAttention_def split: if_splits sum.splits)
  have "0 \<le> embed_dim div num_heads" using pos by (simp add: pos_imp_zdiv_nonneg_iff)
  then have "nat num_heads * nat (embed_dim div num_heads) = nat (num_heads * (embed_dim div num_heads))"
    using pos by (simp add: nat_mult_distrib)
  also have "\<dots> = nat embed_dim" using dv by (simp add: mult.commute)
  finally have hd: "nat num_heads * nat (embed_dim div num_heads) = nat embed_dim" .
  show "mha_shape a (nat embed_dim)"
    using hd Linear_shape(1)[OF proj]
    by (simp add: a mha_shape_def length_new_vector new_matrix_shape)
  show "0 < embed_dim" "0 < num_heads" by (rule pos)+
  show "embed_dim mod num_heads = 0" using dv
    by (metis mod_mult_self1_is_0 mult.commute)
  show "mha_num_heads a = nat num_heads" by (simp add: a)
qed

lemma MultiheadAttention_ok:
  assumes "0 < embed_dim" and "0 < num_heads" and "embed_dim mod num_heads = 0"
  shows "\<exists>a. MultiheadAttention embed_dim num_heads p name init = Inr a"
proof -
  have "(embed_dim div num_heads) * num_heads = embed_dim"
    using assms(3) by auto
  moreover obtain proj where "Linear embed_dim embed_dim (name @ ''.out_proj'') init = Inr proj"
    using Linear_ok[of embed_dim embed_dim] assms(1) by fastforce
  ultimately show ?thesis using assms(1,2)
    by (simp add: MultiheadAttention_def)
qed

lemma MultiheadAttention_not_divisible:
  assumes "0 < embed_dim" and "0 < num_heads" and "embed_dim mod num_heads \<noteq> 0"
  shows "MultiheadAttention embed_dim num_heads p name init = Inl (EmbedDimAssertionError embed_dim)"
proof -
  have "(embed_dim div num_heads) * num_heads \<noteq> embed_dim"
    using assms(3) by (metis mod_mult_self1_is_0 mult.commute)
  then show ?thesis using assms(1,2) by (simp add: MultiheadAttention_def)
qed

lemma BaseEmbeddingModel_init_shapes:
  assumes "BaseEmbeddingModel_init vocab_size embedding_dim init = Inr m"
  shows "base_shapes m (nat vocab_size) (nat embedding_dim)" and "training m"
    and "0 \<le> vocab_size" and "0 \<le> embedding_dim"
proof -
  from assms obtain emb l1 l2 out where
    e: "Embedding vocab_size embedding_dim ''embedding'' init = Inr emb" and
    a: "Linear embedding_dim (embedding_dim * 2) ''layer1'' init = Inr l1" and
    b: "Linear (embedding_dim * 2) embedding_dim ''layer2'' init = Inr l2" and
    c: "Linear embedding_dim vocab_size ''fc'' init = Inr out" and
    m: "m = \<lparr>embedding = emb, dropout = 0.2, layer1 = l1, layer2 = l2, fc = out,
               training = True\<rparr>"
    by (auto simp: BaseEmbeddingModel_init_def split: sum.splits)
  have d: "0 \<le> embedding_dim" using Embedding_shape(3)[OF e] .
  then have n2: "nat (embedding_dim * 2) = nat embedding_dim * 2" by (simp add: nat_mult_distrib)
  show "base_shapes m (nat vocab_size) (nat embedding_dim)"
    using Embedding_shape(1)[OF e] Linear_shape(1)[OF a] Linear_shape(1)[OF b]
      Linear_shape(1)[OF c]
    by (simp add: m base_shapes_def n2)
  show "training m" by (simp add: m)
  show "0 \<le> vocab_size" using Embedding_shape(2)[OF e] .
  show "0 \<le> embedding_dim" by (rule d)
qed

lemma BaseEmbeddingModel_init_ok:
  assumes "0 \<le> vocab_size" and "0 \<le> embedding_dim"
  shows "\<exists>m. BaseEmbeddingModel_init vocab_size embedding_dim init = Inr m"
  using assms by (simp add: BaseEmbeddingModel_init_def Embedding_def Linear_def)

lemma CrossAttentionModel_init_shapes:
  assumes "CrossAttentionModel_init vocab_size embedding_dim init = Inr m"
  shows "cross_shapes m (nat vocab_size) (nat embedding_dim)" and "training m"
    and "0 \<le> vocab_size" and "0 < embedding_dim" and "embedding_dim mod 4 = 0"
proof -
  from assms obtain emb att l1 l2 out nl where
    e: "Embedding vocab_size embedding_dim ''embedding'' init = Inr emb" and
    t: "MultiheadAttention embedding_dim 4 0.1 ''attention'' init = Inr att" and
    a: "Linear embedding_dim (embedding_dim * 2) ''layer1'' init = Inr l1" and
    b: "Linear (embedding_dim * 2) embedding_dim ''layer2'' init = Inr l2" and
    c: "Linear embedding_dim vocab_size ''fc'' init = Inr out" and
    n: "LayerNorm embedding_dim = Inr nl" and
    m: "m = \<lparr>embedding = emb, dropout = 0.2, layer1 = l1, layer2 = l2, fc = out,
               training = True, attention = att, layer_norm = nl\<rparr>"
    by (auto simp: CrossAttentionModel_init_def split: sum.splits)
  have d: "0 < embedding_dim" using MultiheadAttention_shape(2)[OF t] .
  then have n2: "nat (embedding_dim * 2) = nat embedding_dim * 2" by (simp add: nat_mult_distrib)
  show "cross_shapes m (nat vocab_size) (nat embedding_dim)"
    using Embedding_shape(1)[OF e] Linear_shape(1)[OF a] Linear_shape(1)[OF b]
      Linear_shape(1)[OF c] MultiheadAttention_shape(1)[OF t] LayerNorm_shape[OF n]
    by (simp add: m cross_shapes_def base_shapes_def n2)
  show "training m" by (simp add: m)
  show "0 \<le> vocab_size" using Embedding_shape(2)[OF e] .
  show "0 < embedding_dim" by (rule d)
  show "embedding_dim mod 4 = 0" using MultiheadAttention_shape(4)[OF t] .
qed

lemma CrossAttentionModel_init_ok:
  assumes "0 \<le> vocab_size" and "0 < embedding_dim" and "embedding_dim mod 4 = 0"
  shows "\<exists>m. CrossAttentionModel_init vocab_size embedding_dim init = Inr m"
proof -
  obtain att where "MultiheadAttention embedding_dim 4 0.1 ''attention'' init = Inr att"
    using MultiheadAttention_ok[of embedding_dim 4] assms(2,3) by fastforce
  then show ?thesis using assms(1,2)
    by (simp add: CrossAttentionModel_init_def Embedding_def Linear_def LayerNorm_def)
qed

lemma CrossAttentionModel_init_not_divisible:
  assumes "0 \<le> vocab_size" and "0 < embedding_dim" and "embedding_dim mod 4 \<noteq> 0"
  shows "CrossAttentionModel_init vocab_size embedding_dim init =
           Inl (EmbedDimAssertionError embedding_dim)"
  using assms MultiheadAttention_not_divisible[of embedding_dim 4 "0.1" "''attention''" init]
  by (simp add: CrossAttentionModel_init_def Embedding_def)



section \<open>Shapes of the layers' results\<close>

lemma length_dropout1: "length (dropout1 tr p keep xs) = length xs"
  by (simp add: dropout1_def)

lemma length_dropout2: "length (dropout2 tr p keep X) = length X"
  by (simp add: dropout2_def)

lemma rows_dropout2:
  assumes "\<forall>x \<in> set X. length x = n"
  shows "\<forall>x \<in> set (dropout2 tr p keep X). length x = n"
  using assms by (auto simp: dropout2_def length_dropout1 enumerate_eq_zip dest: set_zip_rightD)

lemma length_dropout3: "length (dropout3 tr p keep X) = length X"
  by (simp add: dropout3_def)

lemma rows_dropout3:
  assumes "\<forall>M \<in> set X. \<forall>x \<in> set M. length x = n"
  shows "\<forall>M \<in> set (dropout3 tr p keep X). \<forall>x \<in> set M. length x = n"
proof
  fix M assume "M \<in> set (dropout3 tr p keep X)"
  then obtain i M' where M': "M' \<in> set X" and M: "M = dropout2 tr p (\<lambda>ix. keep (i # ix)) M'"
    by (auto simp: dropout3_def enumerate_eq_zip dest: set_zip_rightD)
  show "\<forall>x \<in> set M. length x = n"
    unfolding M by (rule rows_dropout2) (use assms M' in blast)
qed

lemma map_length_dropout3: "map length (dropout3 tr p keep X) = map length X"
  by (rule nth_equalityI)
     (simp_all add: dropout3_def length_dropout2 nth_enumerate_eq)

lemma length_relu: "length (relu X) = length X"
  by (simp add: relu_def)

lemma rows_relu:
  assumes "\<forall>x \<in> set X. length x = n"
  shows "\<forall>x \<in> set (relu X). length x = n"
  using assms by (auto simp: relu_def)

lemma length_linear_row:
  assumes "linear_shape l n_in n_out"
  shows "length (linear_row l x) = n_out"
  using assms by (simp add: linear_row_def linear_shape_def)

lemma linear_forward_shape:
  assumes "linear_shape l n_in n_out" and "\<forall>x \<in> set X. length x = n_in"
  shows "\<exists>Y. linear_forward l X = Inr Y \<and> length Y = length X \<and>
           (\<forall>y \<in> set Y. length y = n_out)"
  using assms by (auto simp: linear_forward_def linear_shape_def length_linear_row[OF assms(1)])

lemma linear_forward3_shape:
  assumes "linear_shape l n_in n_out" and "\<forall>M \<in> set X. \<forall>x \<in> set M. length x = n_in"
  shows "\<exists>Y. linear_forward3 l X = Inr Y \<and> map length Y = map length X \<and>
           (\<forall>M \<in> set Y. \<forall>y \<in> set M. length y = n_out)"
  using assms by (auto simp: linear_forward3_def linear_shape_def length_linear_row[OF assms(1)])

lemma embedding_forward_shape:
  assumes "embedding_shape emb num d"
    and "\<forall>s \<in> set x. \<forall>t \<in> set s. 0 \<le> t \<and> t < int num"
  shows "\<exists>E. embedding_forward emb x = Inr E \<and> map length E = map length x \<and>
           (\<forall>M \<in> set E. \<forall>r \<in> set M. length r = d)"
proof -
  have n: "emb_num emb = num" and len: "length (emb_weight emb) = num"
    and rows: "\<forall>row \<in> set (emb_weight emb). length row = d"
    using assms(1) by (simp_all add: embedding_shape_def list_all_iff)
  have "length (emb_weight emb ! nat t) = d" if "s \<in> set x" "t \<in> set s" for s t
  proof -
    have "0 \<le> t \<and> t < int num" using assms(2) that by blast
    then have "nat t < length (emb_weight emb)" using len by linarith
    then show ?thesis using rows by simp
  qed
  then show ?thesis using assms(2) n
    by (auto simp: embedding_forward_def)
qed

lemma mean_dim1_shape:
  "length (mean_dim1 d X) = length X" "\<forall>r \<in> set (mean_dim1 d X). length r = d"
  by (auto simp: mean_dim1_def)

lemma length_attend: "length (attend a tr keep q K V h) = mha_head_dim a"
  by (simp add: attend_def Let_def)

lemma length_concat_const:
  assumes "\<forall>x \<in> set xs. length x = n"
  shows "length (concat xs) = length xs * n"
  using assms by (induction xs) auto

lemma attention_one_shape:
  "length (attention_one a tr keep q k v) = length q"
  "\<forall>r \<in> set (attention_one a tr keep q k v). length r = mha_num_heads a * mha_head_dim a"
proof -
  show "length (attention_one a tr keep q k v) = length q"
    by (simp add: attention_one_def Let_def)
  show "\<forall>r \<in> set (attention_one a tr keep q k v). length r = mha_num_heads a * mha_head_dim a"
  proof
    fix r assume "r \<in> set (attention_one a tr keep q k v)"
    then obtain f qi where
      r: "r = concat (map (\<lambda>h. attend a tr (f h) qi (map (in_proj a 1) k) (map (in_proj a 2) v) h)
                        [0..<mha_num_heads a])"
      by (auto simp: attention_one_def Let_def)
    show "length r = mha_num_heads a * mha_head_dim a"
      unfolding r by (subst length_concat_const[where n = "mha_head_dim a"])
        (simp_all add: length_attend)
  qed
qed

lemma mha_forward_shape:
  assumes "mha_shape a d" and "length key = length query" and "map length key = map length val"
    and "\<forall>M \<in> set query. \<forall>r \<in> set M. length r = d"
    and "\<forall>M \<in> set key. \<forall>r \<in> set M. length r = d"
    and "\<forall>M \<in> set val. \<forall>r \<in> set M. length r = d"
  shows "\<exists>Y. mha_forward a tr keep query key val = Inr Y \<and> map length Y = map length query \<and>
           (\<forall>M \<in> set Y. \<forall>r \<in> set M. length r = d)"
proof -
  let ?H = "map (\<lambda>(b, q, k, v). attention_one a tr (\<lambda>ix. keep (b # ix)) q k v)
                (enumerate 0 (zip query (zip key val)))"
  have ed: "mha_embed_dim a = d" and hd: "mha_num_heads a * mha_head_dim a = d"
    and op: "linear_shape (out_proj a) d d"
    using assms(1) by (simp_all add: mha_shape_def)
  have lv: "length val = length key" using assms(3) by (metis length_map)
  have rowsH: "\<forall>M \<in> set ?H. \<forall>x \<in> set M. length x = d"
    using attention_one_shape(2)[of a tr] hd by (auto simp: enumerate_eq_zip)
  have lenH: "map length ?H = map length query"
    by (rule nth_equalityI)
       (simp_all add: assms(2) lv nth_enumerate_eq attention_one_shape(1))
  from linear_forward3_shape[OF op rowsH] obtain Y where
    Y: "linear_forward3 (out_proj a) ?H = Inr Y" "map length Y = map length ?H"
       "\<forall>M \<in> set Y. \<forall>y \<in> set M. length y = d"
    by blast
  have chk: "\<forall>M \<in> set (query @ key @ val). \<forall>r \<in> set M. length r = mha_embed_dim a"
    using assms(4,5,6) ed by auto
  have "mha_forward a tr keep query key val = Inr Y"
    using assms(2,3) chk Y(1) by (simp add: mha_forward_def)
  then show ?thesis using Y(2,3) lenH by simp
qed

lemma mha_forward_batch_mismatch:
  assumes "length key \<noteq> length query"
  shows "mha_forward a tr keep query key val = Inl (BatchMismatchError (length query) (length key))"
  using assms by (simp add: mha_forward_def)

lemma layer_norm_forward_shape:
  assumes "layer_norm_shape nl d" and "\<forall>M \<in> set X. \<forall>x \<in> set M. length x = d"
  shows "\<exists>Y. layer_norm_forward nl X = Inr Y \<and> map length Y = map length X \<and>
           (\<forall>M \<in> set Y. \<forall>y \<in> set M. length y = d)"
proof -
  have s: "ln_shape nl = d" "length (ln_weight nl) = d" "length (ln_bias nl) = d"
    using assms(1) by (simp_all add: layer_norm_shape_def)
  have "length (layer_norm_row nl x) = d" if "length x = d" for x
    using that s by (simp add: layer_norm_row_def Let_def)
  then show ?thesis using assms(2) s(1)
    by (auto simp: layer_norm_forward_def)
qed

lemma add3_shape:
  assumes "map length X = map length Y"
    and "\<forall>M \<in> set X. \<forall>x \<in> set M. length x = d"
    and "\<forall>M \<in> set Y. \<forall>x \<in> set M. length x = d"
  shows "map length (add3 X Y) = map length X"
    and "\<forall>M \<in> set (add3 X Y). \<forall>x \<in> set M. length x = d"
proof -
  have len: "length X = length Y" using assms(1) by (metis length_map)
  have nth: "length (X ! i) = length (Y ! i)" if "i < length X" for i
    using assms(1) that len by (metis nth_map)
  show "map length (add3 X Y) = map length X"
    by (rule nth_equalityI) (simp_all add: add3_def len nth)
  show "\<forall>M \<in> set (add3 X Y). \<forall>x \<in> set M. length x = d"
  proof (intro ballI)
    fix M x assume "M \<in> set (add3 X Y)" and x: "x \<in> set M"
    then obtain A B where AB: "A \<in> set X" "B \<in> set Y" and M: "M = map2 (map2 (+)) A B"
      by (auto simp: add3_def dest: set_zip_leftD set_zip_rightD)
    from x M obtain a b where "a \<in> set A" "b \<in> set B" and "x = map2 (+) a b"
      by (auto dest: set_zip_leftD set_zip_rightD)
    then show "length x = d" using AB assms(2,3) by simp
  qed
qed



section \<open>Shapes of the models' results\<close>

lemma rows_of_map_length:
  assumes "map length E = map length x" and "\<forall>s \<in> set x. length s = n"
  shows "\<forall>M \<in> set E. length M = n"
proof
  fix M assume "M \<in> set E"
  then have "length M \<in> set (map length E)" by simp
  then have "length M \<in> set (map length x)" using assms(1) by simp
  then show "length M = n" using assms(2) by auto
qed

lemma base_head_shape:
  fixes m :: "'a base_embedding_model_scheme"
  assumes "base_shapes m vocab_size embedding_dim"
    and "\<forall>r \<in> set pooled. length r = embedding_dim"
  shows "\<exists>logits.
           (case linear_forward (layer1 m) pooled of
              Inl e \<Rightarrow> Inl e
            | Inr h1 \<Rightarrow>
           (let x1 = dropout2 (training m) (dropout m) (\<lambda>ix. keep (1 # ix)) (relu h1)
            in case linear_forward (layer2 m) x1 of
              Inl e \<Rightarrow> Inl e
            | Inr h2 \<Rightarrow>
           (let x2 = dropout2 (training m) (dropout m) (\<lambda>ix. keep (2 # ix)) (relu h2)
            in linear_forward (fc m) x2))) = Inr logits \<and>
           length logits = length pooled \<and> (\<forall>l \<in> set logits. length l = vocab_size)"
proof -
  have s1: "linear_shape (layer1 m) embedding_dim (embedding_dim * 2)"
    and s2: "linear_shape (layer2 m) (embedding_dim * 2) embedding_dim"
    and s3: "linear_shape (fc m) embedding_dim vocab_size"
    using assms(1) by (simp_all add: base_shapes_def)
  from linear_forward_shape[OF s1 assms(2)] obtain h1 where
    h1: "linear_forward (layer1 m) pooled = Inr h1" "length h1 = length pooled"
        "\<forall>y \<in> set h1. length y = embedding_dim * 2"
    by blast
  let ?x1 = "dropout2 (training m) (dropout m) (\<lambda>ix. keep (1 # ix)) (relu h1)"
  have x1: "\<forall>x \<in> set ?x1. length x = embedding_dim * 2" "length ?x1 = length pooled"
    using rows_dropout2[OF rows_relu[OF h1(3)]] h1(2)
    by (simp_all add: length_dropout2 length_relu)
  from linear_forward_shape[OF s2 x1(1)] obtain h2 where
    h2: "linear_forward (layer2 m) ?x1 = Inr h2" "length h2 = length ?x1"
        "\<forall>y \<in> set h2. length y = embedding_dim"
    by blast
  let ?x2 = "dropout2 (training m) (dropout m) (\<lambda>ix. keep (2 # ix)) (relu h2)"
  have x2: "\<forall>x \<in> set ?x2. length x = embedding_dim" "length ?x2 = length pooled"
    using rows_dropout2[OF rows_relu[OF h2(3)]] h2(2) x1(2)
    by (simp_all add: length_dropout2 length_relu)
  from linear_forward_shape[OF s3 x2(1)] obtain logits where
    lg: "linear_forward (fc m) ?x2 = Inr logits" "length logits = length ?x2"
        "\<forall>y \<in> set logits. length y = vocab_size"
    by blast
  show ?thesis using h1(1) h2(1) lg x2(2) by (simp add: Let_def)
qed

lemma BaseEmbeddingModel_forward_shape:
  assumes "base_shapes m vocab_size embedding_dim"
    and "\<forall>s \<in> set x. \<forall>t \<in> set s. 0 \<le> t \<and> t < int vocab_size"
  shows "\<exists>logits. BaseEmbeddingModel_forward m keep x = Inr logits \<and>
           length logits = length x \<and> (\<forall>l \<in> set logits. length l = vocab_size)"
proof -
  have es: "embedding_shape (embedding m) vocab_size embedding_dim"
    and ed: "emb_dim (embedding m) = embedding_dim"
    using assms(1) by (simp_all add: base_shapes_def embedding_shape_def)
  from embedding_forward_shape[OF es assms(2)] obtain E where
    E: "embedding_forward (embedding m) x = Inr E" "map length E = map length x"
    by blast
  let ?pooled = "mean_dim1 embedding_dim
                   (dropout3 (training m) (dropout m) (\<lambda>ix. keep (0 # ix)) E)"
  have len: "length ?pooled = length x"
    using E(2) by (simp add: mean_dim1_shape(1) length_dropout3) (metis length_map)
  from base_head_shape[OF assms(1) mean_dim1_shape(2), where keep = keep] obtain logits where
    "(case linear_forward (layer1 m) ?pooled of
              Inl e \<Rightarrow> Inl e
            | Inr h1 \<Rightarrow>
           (let x1 = dropout2 (training m) (dropout m) (\<lambda>ix. keep (1 # ix)) (relu h1)
            in case linear_forward (layer2 m) x1 of
              Inl e \<Rightarrow> Inl e
            | Inr h2 \<Rightarrow>
           (let x2 = dropout2 (training m) (dropout m) (\<lambda>ix. keep (2 # ix)) (relu h2)
            in linear_forward (fc m) x2))) = Inr logits"
    "length logits = length ?pooled" "\<forall>l \<in> set logits. length l = vocab_size"
    by blast
  then show ?thesis using E(1) len ed
    by (simp add: BaseEmbeddingModel_forward_def Let_def)
qed

lemma CrossAttentionModel_forward_shape:
  assumes "cross_shapes m vocab_size embedding_dim"
    and "\<forall>s \<in> set x. \<forall>t \<in> set s. 0 \<le> t \<and> t < int vocab_size"
  shows "\<exists>logits. CrossAttentionModel_forward m keep x = Inr logits \<and>
           length logits = length x \<and> (\<forall>l \<in> set logits. length l = vocab_size)"
proof -
  have bs: "base_shapes m vocab_size embedding_dim"
    and ms: "mha_shape (attention m) embedding_dim"
    and ns: "layer_norm_shape (layer_norm m) embedding_dim"
    using assms(1) by (simp_all add: cross_shapes_def)
  have es: "embedding_shape (embedding m) vocab_size embedding_dim"
    and ed: "emb_dim (embedding m) = embedding_dim"
    using bs by (simp_all add: base_shapes_def embedding_shape_def)
  from embedding_forward_shape[OF es assms(2)] obtain E where
    E: "embedding_forward (embedding m) x = Inr E" "map length E = map length x"
       "\<forall>M \<in> set E. \<forall>r \<in> set M. length r = embedding_dim"
    by blast
  let ?emb = "dropout3 (training m) (dropout m) (\<lambda>ix. keep (0 # ix)) E"
  have emb: "\<forall>M \<in> set ?emb. \<forall>r \<in> set M. length r = embedding_dim"
    by (rule rows_dropout3[OF E(3)])
  from mha_forward_shape[OF ms refl refl emb emb emb, where tr = "training m" and keep = "\<lambda>ix. keep (3 # ix)"]
  obtain att where
    att: "mha_forward (attention m) (training m) (\<lambda>ix. keep (3 # ix)) ?emb ?emb ?emb = Inr att"
         "map length att = map length ?emb"
         "\<forall>M \<in> set att. \<forall>r \<in> set M. length r = embedding_dim"
    by blast
  note sum = add3_shape[OF att(2) att(3) emb]
  from layer_norm_forward_shape[OF ns sum(2)] obtain nrm where
    nrm: "layer_norm_forward (layer_norm m) (add3 att ?emb) = Inr nrm"
         "map length nrm = map length (add3 att ?emb)"
    by blast
  let ?pooled = "mean_dim1 embedding_dim nrm"
  have "map length nrm = map length x"
    using nrm(2) sum(1) att(2) E(2) by (simp add: map_length_dropout3)
  then have len: "length ?pooled = length x"
    by (simp add: mean_dim1_shape(1)) (metis length_map)
  from base_head_shape[OF bs mean_dim1_shape(2), where keep = keep] obtain logits where
    "(case linear_forward (layer1 m) ?pooled of
              Inl e \<Rightarrow> Inl e
            | Inr h1 \<Rightarrow>
           (let x1 = dropout2 (training m) (dropout m) (\<lambda>ix. keep (1 # ix)) (relu h1)
            in case linear_forward (layer2 m) x1 of
              Inl e \<Rightarrow> Inl e
            | Inr h2 \<Rightarrow>
           (let x2 = dropout2 (training m) (dropout m) (\<lambda>ix. keep (2 # ix)) (relu h2)
            in linear_forward (fc m) x2))) = Inr logits"
    "length logits = length ?pooled" "\<forall>l \<in> set logits. length l = vocab_size"
    by blast
  then show ?thesis using E(1) att(1) nrm(1) len ed
    by (simp add: CrossAttentionModel_forward_def Let_def)
qed

lemma cosine_similarity_same_batch:
  assumes "length A = length B"
  shows "\<exists>sims. cosine_similarity A B = Inr sims \<and> length sims = length A"
  using assms by (simp add: cosine_similarity_def)

lemma BaseEmbeddingModel_get_similarity_shape:
  assumes "base_shapes m vocab_size embedding_dim"
    and "\<forall>s \<in> set x1. \<forall>t \<in> set s. 0 \<le> t \<and> t < int vocab_size"
    and "\<forall>s \<in> set x2. \<forall>t \<in> set s. 0 \<le> t \<and> t < int vocab_size"
    and "length x1 = length x2"
  shows "\<exists>sims. BaseEmbeddingModel_get_similarity m x1 x2 = Inr sims \<and>
           length sims = length x1"
proof -
  have es: "embedding_shape (embedding m) vocab_size embedding_dim"
    using assms(1) by (simp add: base_shapes_def)
  from embedding_forward_shape[OF es assms(2)] obtain E1 where
    E1: "embedding_forward (embedding m) x1 = Inr E1" "map length E1 = map length x1"
    by blast
  from embedding_forward_shape[OF es assms(3)] obtain E2 where
    E2: "embedding_forward (embedding m) x2 = Inr E2" "map length E2 = map length x2"
    by blast
  have l: "length E1 = length x1" "length E2 = length x2"
    using E1(2) E2(2) by (metis length_map)+
  let ?A = "mean_dim1 (emb_dim (embedding m)) E1"
  let ?B = "mean_dim1 (emb_dim (embedding m)) E2"
  have "length ?A = length ?B" using l assms(4) by (simp add: mean_dim1_shape(1))
  from cosine_similarity_same_batch[OF this] obtain sims where
    "cosine_similarity ?A ?B = Inr sims" "length sims = length ?A" by blast
  then show ?thesis using E1(1) E2(1) l(1)
    by (simp add: BaseEmbeddingModel_get_similarity_def mean_dim1_shape(1))
qed

lemma CrossAttentionModel_get_similarity_shape:
  assumes "cross_shapes m vocab_size embedding_dim"
    and "\<forall>s \<in> set x1. \<forall>t \<in> set s. 0 \<le> t \<and> t < int vocab_size"
    and "\<forall>s \<in> set x2. \<forall>t \<in> set s. 0 \<le> t \<and> t < int vocab_size"
    and "length x1 = length x2"
  shows "\<exists>sims. CrossAttentionModel_get_similarity m keep x1 x2 = Inr sims \<and>
           map length sims = map length x1"
proof -
  have bs: "base_shapes m vocab_size embedding_dim"
    and ms: "mha_shape (attention m) embedding_dim"
    using assms(1) by (simp_all add: cross_shapes_def)
  have es: "embedding_shape (embedding m) vocab_size embedding_dim"
    using bs by (simp add: base_shapes_def)
  from embedding_forward_shape[OF es assms(2)] obtain E1 where
    E1: "embedding_forward (embedding m) x1 = Inr E1" "map length E1 = map length x1"
        "\<forall>M \<in> set E1. \<forall>r \<in> set M. length r = embedding_dim"
    by blast
  from embedding_forward_shape[OF es assms(3)] obtain E2 where
    E2: "embedding_forward (embedding m) x2 = Inr E2" "map length E2 = map length x2"
        "\<forall>M \<in> set E2. \<forall>r \<in> set M. length r = embedding_dim"
    by blast
  have l: "length E2 = length E1"
    using E1(2) E2(2) assms(4) by (metis length_map)
  from mha_forward_shape[OF ms l refl E1(3) E2(3) E2(3), where tr = "training m" and keep = keep]
  obtain att where
    att: "mha_forward (attention m) (training m) keep E1 E2 E2 = Inr att"
         "map length att = map length E1"
    by blast
  let ?sims = "map2 (\<lambda>A E. map2 (\<lambda>a e. dot a e / sqrt (real (emb_dim (embedding m)))) A E)
                 att E1"
  have la: "length att = length E1" using att(2) by (metis length_map)
  have na: "length (att ! i) = length (E1 ! i)" if "i < length E1" for i
    using att(2) that la by (metis nth_map)
  have "map length ?sims = map length E1"
    by (rule nth_equalityI) (simp_all add: la na)
  then show ?thesis using E1(1,2) E2(1) att(1)
    by (simp add: CrossAttentionModel_get_similarity_def)
qed

section \<open>The generator on a concrete stream of draws\<close>


lemma gen_example_p1:
  assumes "4 \<le> v" and "v \<le> int64_max" and "np 0 mod 2 ^ 53 < 2 ^ 52"
  shows "gen_example v (np, tg) =
     Inr ((map (\<lambda>i. int (tg i mod nat (v div 4))) [0..<10],
           (int (tg 0 mod nat (v div 4)) + int (tg 9 mod nat (v div 4))) mod v),
          (advance 1 np, advance 10 tg))"
proof -
  have d: "0 < v div 4" "v div 4 \<le> int64_max" using assms by linarith+
  have "0 < int64_max" by (simp add: int64_max_def)
  then have b: "- int64_max - 1 \<le> 0" "- int64_max - 1 \<le> v" using assms(1) by linarith+
  note r1 = randint_eq[OF d(1) b(1) d(2)]
  have v0: "v \<noteq> 0" using assms(1) by linarith
  note m = remainder_eq[OF v0 b(2) assms(2)]
  have "real (np 0 mod 2 ^ 53) < 2 ^ 52"
    using assms(3) by (metis of_nat_less_iff of_nat_numeral of_nat_power)
  then have u: "real (np 0 mod 2 ^ 53) / 2 ^ 53 < 0.5" by simp
  have n: "[0..<10] ! 0 = 0" "[0..<10] ! 9 = 9" by simp_all
  show ?thesis
    using u by (simp add: gen_example_def np_random_def r1 m nth_map n del: upt_conv_Cons)
qed

lemma advance_const_gen: "advance n (const_gen c) = const_gen c"
  by (simp add: advance_def const_gen_def)

lemma advance_id: "advance n id i = i + n"
  by (simp add: advance_def)

lemma gen_example_id_step:
  "gen_example 50 (const_gen 0, advance n id) =
     Inr ((map (\<lambda>i. int ((i + n) mod 12)) [0..<10], (int (n mod 12) + int ((9 + n) mod 12)) mod 50),
          (const_gen 0, advance (n + 10) id))"
proof -
  have a: "(4::int) \<le> 50" "(50::int) \<le> int64_max" "const_gen 0 0 mod 2 ^ 53 < (2::nat) ^ 52"
    by (simp_all add: int64_max_def const_gen_def)
  show ?thesis
    by (simp add: gen_example_p1[where np = "const_gen 0", OF a] advance_const_gen
        advance_advance advance_id del: upt_conv_Cons)
qed

lemma id_advance_0: "id = advance 0 id" by (simp add: advance_def fun_eq_iff)

lemma id_gen_data:
  "generate_data 50 5 (const_gen 0, id) =
     Inr (([[0, 1, 2, 3, 4, 5, 6, 7, 8, 9], [10, 11, 0, 1, 2, 3, 4, 5, 6, 7],
            [8, 9, 10, 11, 0, 1, 2, 3, 4, 5], [6, 7, 8, 9, 10, 11, 0, 1, 2, 3],
            [4, 5, 6, 7, 8, 9, 10, 11, 0, 1]], [9, 17, 13, 9, 5]),
          (const_gen 0, advance 50 id))"
proof -
  have n5: "nat 5 = Suc (Suc (Suc (Suc (Suc 0))))" by simp
  have "gen_loop (nat 5) 50 (const_gen 0, advance 0 id) ([], []) =
     Inr (([[0, 1, 2, 3, 4, 5, 6, 7, 8, 9], [10, 11, 0, 1, 2, 3, 4, 5, 6, 7],
            [8, 9, 10, 11, 0, 1, 2, 3, 4, 5], [6, 7, 8, 9, 10, 11, 0, 1, 2, 3],
            [4, 5, 6, 7, 8, 9, 10, 11, 0, 1]], [9, 17, 13, 9, 5]),
          (const_gen 0, advance 50 id))"
    unfolding n5 by (simp add: gen_example_id_step upt_rec)
  then show ?thesis
    by (simp add: generate_data_def stack_def id_advance_0[symmetric])
qed

section \<open>Properties of the harness\<close>


lemma train_size_eq: "nat \<lfloor>0.8 * real n\<rfloor> = (4 * n) div 5"
proof -
  have "0.8 * real n = real (4 * n) / real 5" by simp
  then have "\<lfloor>0.8 * real n\<rfloor> = \<lfloor>real (4 * n) / real 5\<rfloor>" by simp
  also have "\<dots> = int ((4 * n) div 5)" by (rule floor_divide_of_nat_eq)
  finally show ?thesis by simp
qed

lemma take_as_positions:
  assumes "k \<le> length xs"
  shows "take k xs = map (\<lambda>i. xs ! i) [0..<k]"
  using assms by (intro nth_equalityI) simp_all

lemma drop_as_positions:
  assumes "k \<le> length xs"
  shows "drop k xs = map (\<lambda>i. xs ! i) [k..<length xs]"
  using assms by (intro nth_equalityI) simp_all

lemma make_loaders_eq:
  assumes "take (4 * length data div 5) (zip data labels) \<noteq> []"
  shows "make_loaders data labels =
     Inr (\<lparr>dataset = take (4 * length data div 5) (zip data labels),
           batch_size = 32, shuffle = True\<rparr>,
          \<lparr>dataset = drop (4 * length data div 5) (zip data labels),
           batch_size = 32, shuffle = False\<rparr>)"
  unfolding make_loaders_def Let_def train_size_eq take_zip[symmetric] drop_zip[symmetric]
  using assms by (simp add: DataLoader_def)

lemma make_loaders_empty_train:
  assumes "take (4 * length data div 5) (zip data labels) = []"
  shows "make_loaders data labels = Inl ValueError"
  unfolding make_loaders_def Let_def train_size_eq take_zip[symmetric] drop_zip[symmetric]
  using assms by (simp add: DataLoader_def)

text \<open>A dataset of one example has an empty training slice, which the loader refuses.\<close>

lemma make_loaders_single:
  assumes "length data = 1"
  shows "make_loaders data labels = Inl ValueError"
  by (rule make_loaders_empty_train) (simp add: assms)

lemma make_loaders_ok:
  assumes "2 \<le> length data" and "length labels = length data"
  shows "take (4 * length data div 5) (zip data labels) \<noteq> []"
proof -
  have "1 \<le> 4 * length data div 5" using assms(1) by linarith
  moreover have "length (zip data labels) = length data" using assms(2) by simp
  ultimately have "0 < length (take (4 * length data div 5) (zip data labels))"
    using assms(1) by simp
  then show ?thesis by auto
qed

lemma run_comparison_eq:
  assumes "generate_data vocab_size dataset_size gs = Inr ((data, labels), gs')"
    and "make_loaders data labels = Inr (train_data, test_data)"
    and "BaseEmbeddingModel_init vocab_size embedding_dim ib = Inr base_model"
    and "CrossAttentionModel_init vocab_size embedding_dim ic = Inr cross_attn_model"
  shows "run_comparison tm ib ic vocab_size embedding_dim dataset_size gs w =
     (case tm (Base base_model) train_data test_data 20 w of
        Inl e \<Rightarrow> Inl e
      | Inr (base_results, w1) \<Rightarrow>
     (case tm (Cross cross_attn_model) train_data test_data 20 w1 of
        Inl e \<Rightarrow> Inl e
      | Inr (cross_attn_results, w2) \<Rightarrow>
          Inr ([(''base_model'', base_results), (''cross_attention'', cross_attn_results)],
               w2)))"
  unfolding run_comparison_def assms sum.case prod.case by simp

lemma run_comparison_Inr:
  assumes "run_comparison tm ib ic vocab_size embedding_dim dataset_size gs w = Inr (results, w')"
  shows "\<exists>data labels gs' train_data test_data base_model cross_attn_model base_results w1
            cross_attn_results.
           generate_data vocab_size dataset_size gs = Inr ((data, labels), gs') \<and>
           make_loaders data labels = Inr (train_data, test_data) \<and>
           BaseEmbeddingModel_init vocab_size embedding_dim ib = Inr base_model \<and>
           CrossAttentionModel_init vocab_size embedding_dim ic = Inr cross_attn_model \<and>
           tm (Base base_model) train_data test_data 20 w = Inr (base_results, w1) \<and>
           tm (Cross cross_attn_model) train_data test_data 20 w1 =
             Inr (cross_attn_results, w') \<and>
           results = [(''base_model'', base_results), (''cross_attention'', cross_attn_results)]"
proof -
  from assms obtain data labels gs' where
    g: "generate_data vocab_size dataset_size gs = Inr ((data, labels), gs')"
    by (auto simp: run_comparison_def split: sum.splits)
  from assms g obtain train_data test_data where
    ld: "make_loaders data labels = Inr (train_data, test_data)"
    by (auto simp: run_comparison_def split: sum.splits)
  from assms g ld obtain base_model where
    b: "BaseEmbeddingModel_init vocab_size embedding_dim ib = Inr base_model"
    by (auto simp: run_comparison_def split: sum.splits)
  from assms g ld b obtain cross_attn_model where
    c: "CrossAttentionModel_init vocab_size embedding_dim ic = Inr cross_attn_model"
    by (auto simp: run_comparison_def split: sum.splits)
  from assms g ld b c obtain base_results w1 where
    t1: "tm (Base base_model) train_data test_data 20 w = Inr (base_results, w1)"
    by (auto simp: run_comparison_def split: sum.splits)
  from assms g ld b c t1 obtain cross_attn_results where
    t2: "tm (Cross cross_attn_model) train_data test_data 20 w1 = Inr (cross_attn_results, w')"
    and r: "results = [(''base_model'', base_results), (''cross_attention'', cross_attn_results)]"
    by (auto simp: run_comparison_def split: sum.splits)
  show ?thesis using g b c t1 t2 r ld by blast
qed

text \<open>With one example the run stops at the training loader, before any model is built.\<close>

lemma run_comparison_single_example:
  assumes "4 \<le> vocab_size" and "vocab_size \<le> int64_max"
  shows "run_comparison tm ib ic vocab_size embedding_dim 1 gs w = Inl ValueError"
proof -
  from generate_data_ok[OF assms, of 1 gs] obtain data labels gs' where
    g: "generate_data vocab_size 1 gs = Inr ((data, labels), gs')" by auto
  have "length data = 1" using generate_data_Inr(1)[OF g] by simp
  from make_loaders_single[OF this] have ld: "make_loaders data labels = Inl ValueError" .
  show ?thesis unfolding run_comparison_def g sum.case prod.case ld by simp
qed

lemma id_gen_loaders:
  "make_loaders
     [[0, 1, 2, 3, 4, 5, 6, 7, 8, 9], [10, 11, 0, 1, 2, 3, 4, 5, 6, 7],
      [8, 9, 10, 11, 0, 1, 2, 3, 4, 5], [6, 7, 8, 9, 10, 11, 0, 1, 2, 3],
      [4, 5, 6, 7, 8, 9, 10, 11, 0, 1]] [9, 17, 13, 9, 5] =
   Inr (\<lparr>dataset =
           [([0, 1, 2, 3, 4, 5, 6, 7, 8, 9], 9), ([10, 11, 0, 1, 2, 3, 4, 5, 6, 7], 17),
            ([8, 9, 10, 11, 0, 1, 2, 3, 4, 5], 13), ([6, 7, 8, 9, 10, 11, 0, 1, 2, 3], 9)],
         batch_size = 32, shuffle = True\<rparr>,
        \<lparr>dataset = [([4, 5, 6, 7, 8, 9, 10, 11, 0, 1], 5)],
         batch_size = 32, shuffle = False\<rparr>)"
  by (subst make_loaders_eq) simp_all

lemma run_comparison_recording:
  "\<exists>base_model cross_attn_model.
     BaseEmbeddingModel_init 50 32 (const_init 1) = Inr base_model \<and>
     CrossAttentionModel_init 50 32 (const_init 1) = Inr cross_attn_model \<and>
     run_comparison recording_trainer (const_init 1) (const_init 1) 50 32 5 (const_gen 0, id) [] =
       Inr ([(''base_model'', 20), (''cross_attention'', 20)],
            [(''BaseEmbeddingModel'', 20, 4, 1), (''CrossAttentionModel'', 20, 4, 1)])"
proof -
  obtain mb where mb: "BaseEmbeddingModel_init 50 32 (const_init 1) = Inr mb"
    using BaseEmbeddingModel_init_ok[of 50 32] by fastforce
  obtain mc where mc: "CrossAttentionModel_init 50 32 (const_init 1) = Inr mc"
    using CrossAttentionModel_init_ok[of 50 32] by fastforce
  have "run_comparison recording_trainer (const_init 1) (const_init 1) 50 32 5 (const_gen 0, id) [] =
       Inr ([(''base_model'', 20), (''cross_attention'', 20)],
            [(''BaseEmbeddingModel'', 20, 4, 1), (''CrossAttentionModel'', 20, 4, 1)])"
    by (simp add: run_comparison_eq[OF id_gen_data id_gen_loaders mb mc] recording_trainer_def)
  then show ?thesis using mb mc by blast
qed

lemma model_entry_texts:
  assumes "model_entry results name t train_loss test_loss accuracy"
  shows "training_time_text fmt results name = Inr (fmt 2 t)"
    and "train_loss \<noteq> [] \<Longrightarrow>
           final_metric_text fmt results name ''train_loss'' = Inr (fmt 4 (last train_loss))"
    and "test_loss \<noteq> [] \<Longrightarrow>
           final_metric_text fmt results name ''test_loss'' = Inr (fmt 4 (last test_loss))"
    and "accuracy \<noteq> [] \<Longrightarrow>
           final_metric_text fmt results name ''accuracy'' = Inr (fmt 4 (last accuracy))"
proof -
  from assms obtain r ms where
    r: "getitem results name = Inr r" and
    t: "getitem r ''training_time'' = Inr (PFloat t)" and
    ms: "getitem r ''metrics'' = Inr ms" and
    a: "getitem ms ''train_loss'' = Inr (PList (map PFloat train_loss))" and
    b: "getitem ms ''test_loss'' = Inr (PList (map PFloat test_loss))" and
    c: "getitem ms ''accuracy'' = Inr (PList (map PFloat accuracy))"
    by (auto simp: model_entry_def split: sum.splits)
  show "training_time_text fmt results name = Inr (fmt 2 t)"
    by (simp add: training_time_text_def and_then_def r t)
  show "train_loss \<noteq> [] \<Longrightarrow>
           final_metric_text fmt results name ''train_loss'' = Inr (fmt 4 (last train_loss))"
    by (simp add: final_metric_text_def and_then_def r ms a last_map)
  show "test_loss \<noteq> [] \<Longrightarrow>
           final_metric_text fmt results name ''test_loss'' = Inr (fmt 4 (last test_loss))"
    by (simp add: final_metric_text_def and_then_def r ms b last_map)
  show "accuracy \<noteq> [] \<Longrightarrow>
           final_metric_text fmt results name ''accuracy'' = Inr (fmt 4 (last accuracy))"
    by (simp add: final_metric_text_def and_then_def r ms c last_map)
qed

section \<open>The claims about the data generator\<close>


lemmas gen_eval = gen_example_def np_random_def randint_def remainder_def to_int64_def
  const_gen_def int64_max_def upt_rec pattern1_def

text \<open>
  Why the statements below bound the vocabulary size by the int64 maximum: at
  \<open>vocab_size = 2 ^ 63\<close> the divisor wraps to \<open>- 2 ^ 63\<close>, and the pattern-1 example of
  ten fives gets the label \<open>10 - 2 ^ 63\<close>.
\<close>

lemma gen_example_int64_wrap:
  "example_of (gen_example (2 ^ 63) (const_gen 0, const_gen 5)) =
     Some ([5, 5, 5, 5, 5, 5, 5, 5, 5, 5], 10 - 2 ^ 63)"
  by (simp add: example_of_def gen_eval advance_def)

text \<open>
  C2 (as stated, refuted): the same sequence is generated with two different labels, so
  the label is not a function of the sequence alone.
\<close>

theorem label_not_function_of_sequence:
  "example_of (gen_example 50 (const_gen (2 ^ 52), const_gen 12)) =
     Some ([0, 0, 0, 0, 0, 0, 0, 0, 0, 0], 3) \<and>
   example_of (gen_example 50 (const_gen (2 ^ 52), const_gen 1)) =
     Some ([0, 0, 0, 0, 0, 0, 0, 0, 0, 0], 4)"
  by (simp add: example_of_def gen_eval advance_def)

text \<open>
  C2 (amended): for a vocabulary size up to the int64 maximum, the label of a generated
  pair is a function of the draws of its iteration. Under pattern 1 it is \<open>(seq[0] + seq[-1]) mod vocab_size\<close>, a function of
  the sequence; under pattern 2 it is \<open>(base_token + 3) mod vocab_size\<close> for the base
  token drawn below \<open>vocab_size div 4\<close>, and every token of the sequence is the base
  token plus a noise between \<open>-2\<close> and \<open>2\<close>, modulo \<open>vocab_size\<close>.
\<close>

theorem label_function_of_draws:
  assumes "gen_example vocab_size gs = Inr ((seq, label), gs')"
    and "vocab_size \<le> int64_max"
  shows "(pattern1 gs \<longrightarrow> label = (seq ! 0 + last seq) mod vocab_size) \<and>
         (\<not> pattern1 gs \<longrightarrow>
            (\<exists>base_token noise.
               0 \<le> base_token \<and> base_token < vocab_size div 4 \<and> length noise = 10 \<and>
               (\<forall>n \<in> set noise. - 2 \<le> n \<and> n \<le> 2) \<and>
               seq = map (\<lambda>n. (base_token + n) mod vocab_size) noise \<and>
               label = (base_token + 3) mod vocab_size))"
proof (intro conjI impI)
  assume p: "pattern1 gs"
  note a = gen_example_pattern1[OF assms(1) p assms(2)]
  have "seq \<noteq> []" using a(1) by auto
  then have "last seq = seq ! (length seq - 1)" by (rule last_conv_nth)
  then show "label = (seq ! 0 + last seq) mod vocab_size" using a(3) by simp
next
  assume p: "\<not> pattern1 gs"
  show "\<exists>base_token noise.
               0 \<le> base_token \<and> base_token < vocab_size div 4 \<and> length noise = 10 \<and>
               (\<forall>n \<in> set noise. - 2 \<le> n \<and> n \<le> 2) \<and>
               seq = map (\<lambda>n. (base_token + n) mod vocab_size) noise \<and>
               label = (base_token + 3) mod vocab_size"
    by (rule gen_example_pattern2[OF assms(1) p assms(2)])
qed

theorem label_function_of_draws_witness:
  "gen_example 50 (const_gen 0, const_gen 7) =
     Inr (([7, 7, 7, 7, 7, 7, 7, 7, 7, 7], 14), (advance 1 (const_gen 0), advance 10 (const_gen 7))) \<and>
   pattern1 (const_gen 0, const_gen 7) \<and> (14 :: int) = (7 + 7) mod 50 \<and>
   gen_example 50 (const_gen (2 ^ 52), const_gen 12) =
     Inr (([0, 0, 0, 0, 0, 0, 0, 0, 0, 0], 3),
          (advance 1 (const_gen (2 ^ 52)), advance 11 (const_gen 12))) \<and>
   \<not> pattern1 (const_gen (2 ^ 52), const_gen 12) \<and>
   (\<exists>base_token noise.
       0 \<le> base_token \<and> base_token < 50 div 4 \<and> length noise = 10 \<and>
       (\<forall>n \<in> set noise. - 2 \<le> n \<and> n \<le> 2) \<and>
       [0, 0, 0, 0, 0, 0, 0, 0, 0, 0] = map (\<lambda>n. (base_token + n) mod 50) noise \<and>
       (3 :: int) = (base_token + 3) mod 50)"
proof -
  have h1: "gen_example 50 (const_gen 0, const_gen 7) =
     Inr (([7, 7, 7, 7, 7, 7, 7, 7, 7, 7], 14), (advance 1 (const_gen 0), advance 10 (const_gen 7)))"
    by (simp add: gen_eval)
  have p1: "pattern1 (const_gen 0, const_gen 7)" by (simp add: gen_eval)
  have h2: "gen_example 50 (const_gen (2 ^ 52), const_gen 12) =
     Inr (([0, 0, 0, 0, 0, 0, 0, 0, 0, 0], 3),
          (advance 1 (const_gen (2 ^ 52)), advance 11 (const_gen 12)))"
    by (simp add: gen_eval advance_def)
  have p2: "\<not> pattern1 (const_gen (2 ^ 52), const_gen 12)" by (simp add: gen_eval)
  have b: "(50 :: int) \<le> int64_max" by (simp add: int64_max_def)
  show ?thesis
    using label_function_of_draws[OF h1 b] label_function_of_draws[OF h2 b] h1 h2 p1 p2
    by simp
qed

text \<open>
  C10: for a vocabulary size up to the int64 maximum, in a pattern-1 example the two
  summed tokens are both below \<open>vocab_size div 4\<close>, so their sum is below
  \<open>vocab_size\<close>, the modulo changes nothing, and the label is \<open>seq[0] + seq[-1]\<close>
  itself. (An example is generated only when \<open>vocab_size \<ge> 4\<close>.)
\<close>

theorem pattern1_modulo_is_identity:
  assumes "gen_example vocab_size gs = Inr ((seq, label), gs')" and "pattern1 gs"
    and "vocab_size \<le> int64_max"
  shows "4 \<le> vocab_size \<and> seq ! 0 < vocab_size div 4 \<and> last seq < vocab_size div 4 \<and>
         seq ! 0 + last seq < vocab_size \<and>
         (seq ! 0 + last seq) mod vocab_size = seq ! 0 + last seq \<and>
         label = seq ! 0 + last seq"
proof -
  note a = gen_example_pattern1[OF assms]
  have ne: "seq \<noteq> []" using a(1) by auto
  then have l: "last seq = seq ! (length seq - 1)" by (rule last_conv_nth)
  have "seq ! 0 \<in> set seq" "last seq \<in> set seq" using ne a(1) by simp_all
  then have b: "0 \<le> seq ! 0" "seq ! 0 < vocab_size div 4"
      "0 \<le> last seq" "last seq < vocab_size div 4"
    using a(2) by blast+
  have v: "4 \<le> vocab_size" using a(4) by linarith
  have lt: "seq ! 0 + last seq < vocab_size" using b v by linarith
  have ge: "0 \<le> seq ! 0 + last seq" using b by linarith
  have m: "(seq ! 0 + last seq) mod vocab_size = seq ! 0 + last seq"
    using lt ge by simp
  show ?thesis using v b lt m a(3) l by simp
qed

theorem pattern1_modulo_is_identity_witness:
  "gen_example 50 (const_gen 1, const_gen 11) =
     Inr (([11, 11, 11, 11, 11, 11, 11, 11, 11, 11], 22),
          (advance 1 (const_gen 1), advance 10 (const_gen 11))) \<and>
   pattern1 (const_gen 1, const_gen 11) \<and> (22 :: int) = 11 + 11 \<and> (11 + 11 :: int) < 50"
proof -
  have h: "gen_example 50 (const_gen 1, const_gen 11) =
     Inr (([11, 11, 11, 11, 11, 11, 11, 11, 11, 11], 22),
          (advance 1 (const_gen 1), advance 10 (const_gen 11)))"
    by (simp add: gen_eval)
  have p: "pattern1 (const_gen 1, const_gen 11)" by (simp add: gen_eval)
  have b: "(50 :: int) \<le> int64_max" by (simp add: int64_max_def)
  show ?thesis using pattern1_modulo_is_identity[OF h p b] h p by simp
qed


text \<open>
  C3: for a vocabulary size from 4 up to the int64 maximum and a dataset size of at least 1,
  the generation succeeds, and the dataset has exactly \<open>dataset_size\<close> sequences, each
  of length 10 with every token in the half-open range from 0 to \<open>vocab_size\<close>.
\<close>

theorem generated_dataset_shape:
  assumes "4 \<le> vocab_size" and "vocab_size \<le> int64_max" and "1 \<le> dataset_size"
  shows "\<exists>data labels gs'.
           generate_data vocab_size dataset_size gs = Inr ((data, labels), gs') \<and>
           int (length data) = dataset_size \<and>
           (\<forall>seq \<in> set data. length seq = 10 \<and> (\<forall>t \<in> set seq. 0 \<le> t \<and> t < vocab_size))"
proof -
  from generate_data_ok[OF assms] obtain data labels gs' where
    g: "generate_data vocab_size dataset_size gs = Inr ((data, labels), gs')" by blast
  from generate_data_Inr(1)[OF g] generate_data_valid(1)[OF g assms(2)] g
  show ?thesis by blast
qed

theorem generated_dataset_shape_witness:
  "\<exists>data labels gs'.
      generate_data 50 2 (const_gen 0, const_gen 7) = Inr ((data, labels), gs') \<and>
      data = [[7, 7, 7, 7, 7, 7, 7, 7, 7, 7], [7, 7, 7, 7, 7, 7, 7, 7, 7, 7]] \<and>
      int (length data) = 2 \<and>
      (\<forall>seq \<in> set data. length seq = 10 \<and> (\<forall>t \<in> set seq. 0 \<le> t \<and> t < 50))"
proof -
  have h1: "(4::int) \<le> 50" and h2: "(50::int) \<le> int64_max" and h3: "(1::int) \<le> 2"
    by (simp_all add: int64_max_def)
  from generated_dataset_shape[OF h1 h2 h3, of "(const_gen 0, const_gen 7)"]
  show ?thesis
    by (simp add: generate_data_def stack_def numeral_2_eq_2 gen_eval advance_def)
qed

text \<open>
  C8: for a vocabulary size up to the int64 maximum, every label of a generated dataset
  lies in the half-open range from 0 to \<open>vocab_size\<close>, and there is one label per
  sequence.
\<close>

theorem labels_in_range:
  assumes "generate_data vocab_size dataset_size gs = Inr ((data, labels), gs')"
    and "vocab_size \<le> int64_max"
  shows "length labels = length data \<and>
         (\<forall>label \<in> set labels. 0 \<le> label \<and> label < vocab_size)"
proof -
  have "int (length labels) = int (length data)"
    using generate_data_Inr(1,2)[OF assms(1)] by simp
  then show ?thesis using generate_data_valid(2)[OF assms] by simp
qed

theorem labels_in_range_witness:
  "generate_data 50 2 (const_gen 0, const_gen 7) =
     Inr (([[7, 7, 7, 7, 7, 7, 7, 7, 7, 7], [7, 7, 7, 7, 7, 7, 7, 7, 7, 7]], [14, 14]),
          (advance 1 (advance 1 (const_gen 0)), advance 10 (advance 10 (const_gen 7)))) \<and>
   length [14, 14 :: int] = length [[7, 7, 7, 7, 7, 7, 7, 7, 7, 7], [7, 7, 7, 7, 7, 7, 7, 7, 7, 7 :: int]] \<and>
   list_all (\<lambda>label. 0 \<le> label \<and> label < 50) [14, 14 :: int]"
proof -
  have h: "generate_data 50 2 (const_gen 0, const_gen 7) =
     Inr (([[7, 7, 7, 7, 7, 7, 7, 7, 7, 7], [7, 7, 7, 7, 7, 7, 7, 7, 7, 7]], [14, 14]),
          (advance 1 (advance 1 (const_gen 0)), advance 10 (advance 10 (const_gen 7))))"
    by (simp add: generate_data_def stack_def numeral_2_eq_2 gen_eval advance_def)
  have b: "(50 :: int) \<le> int64_max" by (simp add: int64_max_def)
  show ?thesis using labels_in_range[OF h b] h by simp
qed
section \<open>The claims about the two models\<close>


lemma base_model_8_4:
  "\<exists>m. BaseEmbeddingModel_init 8 4 (const_init 1) = Inr m \<and> base_shapes m 8 4"
proof -
  obtain m where m: "BaseEmbeddingModel_init 8 4 (const_init 1) = Inr m"
    using BaseEmbeddingModel_init_ok[of 8 4] by fastforce
  from BaseEmbeddingModel_init_shapes(1)[OF m] m show ?thesis by simp
qed

lemma cross_model_8_4:
  "\<exists>m. CrossAttentionModel_init 8 4 (const_init 1) = Inr m \<and> cross_shapes m 8 4"
proof -
  obtain m where m: "CrossAttentionModel_init 8 4 (const_init 1) = Inr m"
    using CrossAttentionModel_init_ok[of 8 4] by fastforce
  from CrossAttentionModel_init_shapes(1)[OF m] m show ?thesis by simp
qed

text \<open>
  C4: for a batch of sequences of one positive length whose tokens index the vocabulary,
  the forward computation of each model succeeds and returns one logit vector per input
  sequence, each of length \<open>vocab_size\<close>. This holds for every model with the
  parameter shapes that the constructors give, whatever the parameter values, the mode
  and the dropout outcome.
\<close>

theorem forward_returns_logits:
  assumes "base_shapes base_model vocab_size embedding_dim"
    and "cross_shapes cross_attn_model vocab_size embedding_dim"
    and "x \<noteq> []" and "0 < seq_len"
    and "\<forall>s \<in> set x. length s = seq_len \<and> (\<forall>t \<in> set s. 0 \<le> t \<and> t < int vocab_size)"
  shows "(\<exists>logits. BaseEmbeddingModel_forward base_model keep x = Inr logits \<and>
            length logits = length x \<and> (\<forall>l \<in> set logits. length l = vocab_size)) \<and>
         (\<exists>logits. CrossAttentionModel_forward cross_attn_model keep x = Inr logits \<and>
            length logits = length x \<and> (\<forall>l \<in> set logits. length l = vocab_size))"
proof -
  have tok: "\<forall>s \<in> set x. \<forall>t \<in> set s. 0 \<le> t \<and> t < int vocab_size"
    using assms(5) by blast
  show ?thesis
    using BaseEmbeddingModel_forward_shape[OF assms(1) tok]
      CrossAttentionModel_forward_shape[OF assms(2) tok]
    by blast
qed

theorem forward_returns_logits_witness:
  "\<exists>base_model cross_attn_model.
     BaseEmbeddingModel_init 8 4 (const_init 1) = Inr base_model \<and>
     CrossAttentionModel_init 8 4 (const_init 1) = Inr cross_attn_model \<and>
     (\<exists>logits. BaseEmbeddingModel_forward base_model keep_all [[0, 1, 2], [3, 4, 5]] = Inr logits \<and>
        length logits = 2 \<and> list_all (\<lambda>l. length l = 8) logits) \<and>
     (\<exists>logits. CrossAttentionModel_forward cross_attn_model keep_all [[0, 1, 2], [3, 4, 5]] = Inr logits \<and>
        length logits = 2 \<and> list_all (\<lambda>l. length l = 8) logits)"
proof -
  from base_model_8_4 obtain mb where
    mb: "BaseEmbeddingModel_init 8 4 (const_init 1) = Inr mb" "base_shapes mb 8 4" by blast
  from cross_model_8_4 obtain mc where
    mc: "CrossAttentionModel_init 8 4 (const_init 1) = Inr mc" "cross_shapes mc 8 4" by blast
  have h3: "[[0, 1, 2], [3, 4, 5 :: int]] \<noteq> []" by simp
  have h4: "0 < (3 :: nat)" by simp
  have h5: "\<forall>s \<in> set [[0, 1, 2], [3, 4, 5 :: int]].
              length s = 3 \<and> (\<forall>t \<in> set s. 0 \<le> t \<and> t < int 8)"
    by simp
  from forward_returns_logits[OF mb(2) mc(2) h3 h4 h5, of keep_all] mb(1) mc(1)
  show ?thesis by (simp add: list_all_iff numeral_2_eq_2)
qed

text \<open>
  C1, evaluated for the pair of sequences \<open>[0, 1, 2]\<close> and \<open>[3, 4, 5]\<close> (a batch of one
  pair) on models of vocabulary size 8 and embedding dimension 4: the base model returns
  one number for the pair, and the cross-attention model returns three numbers for it, one
  per position of the first sequence.
\<close>

theorem get_similarity_result_shapes:
  "(\<exists>base_model sims.
      BaseEmbeddingModel_init 8 4 (const_init 1) = Inr base_model \<and>
      BaseEmbeddingModel_get_similarity base_model [[0, 1, 2]] [[3, 4, 5]] = Inr sims \<and>
      length sims = 1) \<and>
   (\<exists>cross_attn_model sims.
      CrossAttentionModel_init 8 4 (const_init 1) = Inr cross_attn_model \<and>
      CrossAttentionModel_get_similarity cross_attn_model keep_all [[0, 1, 2]] [[3, 4, 5]] = Inr sims \<and>
      map length sims = [3])"
proof -
  from base_model_8_4 obtain mb where
    mb: "BaseEmbeddingModel_init 8 4 (const_init 1) = Inr mb" "base_shapes mb 8 4" by blast
  from cross_model_8_4 obtain mc where
    mc: "CrossAttentionModel_init 8 4 (const_init 1) = Inr mc" "cross_shapes mc 8 4" by blast
  have t1: "\<forall>s \<in> set [[0, 1, 2 :: int]]. \<forall>t \<in> set s. 0 \<le> t \<and> t < int 8" by simp
  have t2: "\<forall>s \<in> set [[3, 4, 5 :: int]]. \<forall>t \<in> set s. 0 \<le> t \<and> t < int 8" by simp
  have l: "length [[0, 1, 2 :: int]] = length [[3, 4, 5 :: int]]" by simp
  from BaseEmbeddingModel_get_similarity_shape[OF mb(2) t1 t2 l]
    CrossAttentionModel_get_similarity_shape[OF mc(2) t1 t2 l, of keep_all] mb(1) mc(1)
  show ?thesis by (simp add: numeral_3_eq_3)
qed

section \<open>The claims about the harness\<close>


text \<open>
  C5: for a vocabulary size from 4 up to the int64 maximum, a dataset size of at least 2
  and a positive embedding dimension divisible by 4, \<open>run_comparison\<close> generates the
  data, makes the two loaders, constructs both models and then calls
  \<open>train_and_measure\<close> with the epoch count 20 and the same two loaders, first on the
  base model, from the initial state of the world, and, only if that call returns, on the
  cross-attention model, from the state the first training left. If both calls return,
  the result is the dictionary with exactly the keys \<open>base_model\<close> and
  \<open>cross_attention\<close>, holding the two results. (With a dataset size of 1 the training
  slice is empty and the shuffling loader refuses it: see \<open>run_comparison_single_example\<close>.)
\<close>

theorem run_comparison_trains_both:
  assumes "4 \<le> vocab_size" and "vocab_size \<le> int64_max" and "2 \<le> dataset_size"
    and "0 < embedding_dim" and "embedding_dim mod 4 = 0"
  shows "\<exists>data labels gs' train_data test_data base_model cross_attn_model.
           generate_data vocab_size dataset_size gs = Inr ((data, labels), gs') \<and>
           make_loaders data labels = Inr (train_data, test_data) \<and>
           BaseEmbeddingModel_init vocab_size embedding_dim init_base = Inr base_model \<and>
           CrossAttentionModel_init vocab_size embedding_dim init_cross = Inr cross_attn_model \<and>
           run_comparison train_and_measure init_base init_cross vocab_size embedding_dim
               dataset_size gs w =
             (case train_and_measure (Base base_model) train_data test_data 20 w of
                Inl e \<Rightarrow> Inl e
              | Inr (base_results, w1) \<Rightarrow>
             (case train_and_measure (Cross cross_attn_model) train_data test_data 20 w1 of
                Inl e \<Rightarrow> Inl e
              | Inr (cross_attn_results, w2) \<Rightarrow>
                  Inr ([(''base_model'', base_results),
                        (''cross_attention'', cross_attn_results)], w2)))"
proof -
  have n1: "1 \<le> dataset_size" using assms(3) by linarith
  from generate_data_ok[OF assms(1,2) n1] obtain data labels gs' where
    g: "generate_data vocab_size dataset_size gs = Inr ((data, labels), gs')" by blast
  note i = generate_data_Inr(1,2)[OF g]
  have l: "2 \<le> length data" "length labels = length data" using i assms(3) by linarith+
  note ld = make_loaders_eq[OF make_loaders_ok[OF l]]
  have v: "0 \<le> vocab_size" and d: "0 \<le> embedding_dim" using assms(1,4) by linarith+
  from BaseEmbeddingModel_init_ok[OF v d] obtain base_model where
    b: "BaseEmbeddingModel_init vocab_size embedding_dim init_base = Inr base_model" by blast
  from CrossAttentionModel_init_ok[OF v assms(4,5)] obtain cross_attn_model where
    c: "CrossAttentionModel_init vocab_size embedding_dim init_cross = Inr cross_attn_model"
    by blast
  note r = run_comparison_eq[OF g ld b c, where tm = train_and_measure and w = w]
  show ?thesis
    by (intro exI conjI) (rule g, rule ld, rule b, rule c, rule r)
qed

theorem run_comparison_trains_both_witness:
  "\<exists>data labels gs' train_data test_data base_model cross_attn_model.
     generate_data 50 5 (const_gen 0, id) = Inr ((data, labels), gs') \<and>
     make_loaders data labels = Inr (train_data, test_data) \<and>
     BaseEmbeddingModel_init 50 32 (const_init 1) = Inr base_model \<and>
     CrossAttentionModel_init 50 32 (const_init 1) = Inr cross_attn_model \<and>
     run_comparison recording_trainer (const_init 1) (const_init 1) 50 32 5 (const_gen 0, id) [] =
       (case recording_trainer (Base base_model) train_data test_data 20 [] of
          Inl e \<Rightarrow> Inl e
        | Inr (base_results, w1) \<Rightarrow>
       (case recording_trainer (Cross cross_attn_model) train_data test_data 20 w1 of
          Inl e \<Rightarrow> Inl e
        | Inr (cross_attn_results, w2) \<Rightarrow>
            Inr ([(''base_model'', base_results),
                  (''cross_attention'', cross_attn_results)], w2))) \<and>
     run_comparison recording_trainer (const_init 1) (const_init 1) 50 32 5 (const_gen 0, id) [] =
       Inr ([(''base_model'', 20), (''cross_attention'', 20)],
            [(''BaseEmbeddingModel'', 20, 4, 1), (''CrossAttentionModel'', 20, 4, 1)])"
proof -
  have h: "(4 :: int) \<le> 50" "(50 :: int) \<le> int64_max" "(2 :: int) \<le> 5"
    "(0 :: int) < 32" "(32 :: int) mod 4 = 0"
    by (simp_all add: int64_max_def)
  from run_comparison_recording have
    r: "run_comparison recording_trainer (const_init 1) (const_init 1) 50 32 5 (const_gen 0, id) [] =
       Inr ([(''base_model'', 20), (''cross_attention'', 20)],
            [(''BaseEmbeddingModel'', 20, 4, 1), (''CrossAttentionModel'', 20, 4, 1)])"
    by blast
  from run_comparison_trains_both[OF h, of "(const_gen 0, id)" "const_init 1" "const_init 1"
      recording_trainer "[]"] r
  show ?thesis by simp
qed

text \<open>
  C6: for a generated dataset of at least 2 examples the two loaders are made, the
  training set is the first \<open>floor (0.8 * dataset_size)\<close> pairs of the generated dataset
  and the test set is the rest. The two sets are disjoint and complete as sets of
  generated examples, that is, of positions of the dataset: the training set holds the
  examples at the positions below the training size, the test set those at the positions
  from the training size on, the two ranges of positions have no position in common,
  and together they are all the positions. (Two positions may hold equal pairs.)
\<close>

theorem train_test_split_partition:
  assumes "generate_data vocab_size dataset_size gs = Inr ((data, labels), gs')"
    and "2 \<le> dataset_size"
  shows "\<exists>train_data test_data.
           make_loaders data labels = Inr (train_data, test_data) \<and>
           int (length (zip data labels)) = dataset_size \<and>
           dataset train_data =
             take (nat \<lfloor>0.8 * real_of_int dataset_size\<rfloor>) (zip data labels) \<and>
           dataset test_data =
             drop (nat \<lfloor>0.8 * real_of_int dataset_size\<rfloor>) (zip data labels) \<and>
           dataset train_data @ dataset test_data = zip data labels \<and>
           length (dataset train_data) = nat \<lfloor>0.8 * real_of_int dataset_size\<rfloor> \<and>
           length (dataset train_data) + length (dataset test_data) =
             length (zip data labels) \<and>
           dataset train_data =
             map (\<lambda>i. zip data labels ! i) [0..<nat \<lfloor>0.8 * real_of_int dataset_size\<rfloor>] \<and>
           dataset test_data =
             map (\<lambda>i. zip data labels ! i)
               [nat \<lfloor>0.8 * real_of_int dataset_size\<rfloor>..<length (zip data labels)] \<and>
           set [0..<nat \<lfloor>0.8 * real_of_int dataset_size\<rfloor>] \<inter>
             set [nat \<lfloor>0.8 * real_of_int dataset_size\<rfloor>..<length (zip data labels)] = {} \<and>
           set [0..<nat \<lfloor>0.8 * real_of_int dataset_size\<rfloor>] \<union>
             set [nat \<lfloor>0.8 * real_of_int dataset_size\<rfloor>..<length (zip data labels)] =
             {0..<length (zip data labels)}"
proof -
  note v = generate_data_Inr(1,2)[OF assms(1)]
  have n: "dataset_size = int (length data)" using v(1) by simp
  have l: "length labels = length data" using v(1,2) by simp
  have l2: "2 \<le> length data" using n assms(2) by linarith
  have k: "nat \<lfloor>0.8 * real_of_int dataset_size\<rfloor> = 4 * length data div 5"
    unfolding n of_int_of_nat_eq by (rule train_size_eq)
  let ?k = "4 * length data div 5"
  let ?ex = "zip data labels"
  have le: "?k \<le> length ?ex" using l by simp
  note ld = make_loaders_eq[OF make_loaders_ok[OF l2 l]]
  have t: "take ?k ?ex = map (\<lambda>i. ?ex ! i) [0..<?k]"
    by (rule take_as_positions[OF le])
  have d: "drop ?k ?ex = map (\<lambda>i. ?ex ! i) [?k..<length ?ex]"
    by (rule drop_as_positions[OF le])
  have i: "set [0..<?k] \<inter> set [?k..<length ?ex] = {}" by auto
  have u: "set [0..<?k] \<union> set [?k..<length ?ex] = {0..<length ?ex}"
    using le by auto
  have len: "int (length ?ex) = dataset_size" using l n by simp
  show ?thesis
    unfolding k
    by (intro exI conjI, rule ld)
       (use le l len t[symmetric] d[symmetric] i u in \<open>simp_all add: min_absorb2\<close>)
qed

theorem train_test_split_partition_witness:
  "generate_data 50 5 (const_gen 0, id) =
     Inr (([[0, 1, 2, 3, 4, 5, 6, 7, 8, 9], [10, 11, 0, 1, 2, 3, 4, 5, 6, 7],
            [8, 9, 10, 11, 0, 1, 2, 3, 4, 5], [6, 7, 8, 9, 10, 11, 0, 1, 2, 3],
            [4, 5, 6, 7, 8, 9, 10, 11, 0, 1]], [9, 17, 13, 9, 5]),
          (const_gen 0, advance 50 id)) \<and>
   nat \<lfloor>0.8 * real_of_int 5\<rfloor> = 4 \<and>
   make_loaders
     [[0, 1, 2, 3, 4, 5, 6, 7, 8, 9], [10, 11, 0, 1, 2, 3, 4, 5, 6, 7],
      [8, 9, 10, 11, 0, 1, 2, 3, 4, 5], [6, 7, 8, 9, 10, 11, 0, 1, 2, 3],
      [4, 5, 6, 7, 8, 9, 10, 11, 0, 1]] [9, 17, 13, 9, 5] =
   Inr (\<lparr>dataset =
           [([0, 1, 2, 3, 4, 5, 6, 7, 8, 9], 9), ([10, 11, 0, 1, 2, 3, 4, 5, 6, 7], 17),
            ([8, 9, 10, 11, 0, 1, 2, 3, 4, 5], 13), ([6, 7, 8, 9, 10, 11, 0, 1, 2, 3], 9)],
         batch_size = 32, shuffle = True\<rparr>,
        \<lparr>dataset = [([4, 5, 6, 7, 8, 9, 10, 11, 0, 1], 5)],
         batch_size = 32, shuffle = False\<rparr>) \<and>
   set [0..<4 :: nat] \<inter> set [4..<5] = {} \<and>
   set [0..<4 :: nat] \<union> set [4..<5] = {0..<5}"
proof -
  have k: "nat \<lfloor>0.8 * real_of_int 5\<rfloor> = 4" by simp
  have h: "(2 :: int) \<le> 5" by simp
  from train_test_split_partition[OF id_gen_data h] id_gen_data id_gen_loaders k
  show ?thesis by auto
qed

text \<open>
  C9: below a vocabulary size of 4 every attempt to generate an example fails; for a
  vocabulary size from 0 to 3 the upper bound \<open>vocab_size div 4\<close> is 0 and the failure
  is the empty sampling range from 0 to 0, which is then also the result of
  \<open>run_comparison\<close> for a dataset size of at least 1. The constructor of the
  cross-attention model fails when \<open>embedding_dim\<close> is not divisible by 4 (with the
  attention module's assertion when the dimensions are otherwise valid). Hence a call of
  \<open>run_comparison\<close> that returns had \<open>vocab_size \<ge> 4\<close> and \<open>embedding_dim\<close>
  divisible by 4.
\<close>

theorem run_comparison_preconditions:
  "(vocab_size < 4 \<longrightarrow> (\<exists>e. gen_example vocab_size gs = Inl e)) \<and>
   (0 \<le> vocab_size \<and> vocab_size < 4 \<longrightarrow>
      vocab_size div 4 = 0 \<and> gen_example vocab_size gs = Inl (RandomRangeError 0 0)) \<and>
   (0 \<le> vocab_size \<and> vocab_size < 4 \<and> 1 \<le> dataset_size \<longrightarrow>
      run_comparison train_and_measure init_base init_cross vocab_size embedding_dim
        dataset_size gs w = Inl (RandomRangeError 0 0)) \<and>
   (embedding_dim mod 4 \<noteq> 0 \<longrightarrow>
      (\<exists>e. CrossAttentionModel_init vocab_size embedding_dim init_cross = Inl e)) \<and>
   (0 \<le> vocab_size \<and> 0 < embedding_dim \<and> embedding_dim mod 4 \<noteq> 0 \<longrightarrow>
      CrossAttentionModel_init vocab_size embedding_dim init_cross =
        Inl (EmbedDimAssertionError embedding_dim)) \<and>
   (run_comparison train_and_measure init_base init_cross vocab_size embedding_dim
        dataset_size gs w = Inr r \<longrightarrow>
      4 \<le> vocab_size \<and> embedding_dim mod 4 = 0)"
proof (intro conjI impI)
  assume "vocab_size < 4"
  then show "\<exists>e. gen_example vocab_size gs = Inl e"
    using gen_example_fail by blast
next
  assume a: "0 \<le> vocab_size \<and> vocab_size < 4"
  then show "vocab_size div 4 = 0" by simp
  then show "gen_example vocab_size gs = Inl (RandomRangeError 0 0)"
    using a gen_example_fail[of vocab_size gs] by (simp add: int64_max_def)
next
  assume a: "0 \<le> vocab_size \<and> vocab_size < 4 \<and> 1 \<le> dataset_size"
  then have d: "vocab_size div 4 = 0" by simp
  obtain n where n: "nat dataset_size = Suc n" using a by (cases "nat dataset_size") auto
  have "gen_loop (nat dataset_size) vocab_size gs ([], []) = Inl (RandomRangeError 0 0)"
    unfolding n using a d gen_loop_fail[of vocab_size n gs "([], [])"]
    by (simp add: int64_max_def)
  then show "run_comparison train_and_measure init_base init_cross vocab_size embedding_dim
        dataset_size gs w = Inl (RandomRangeError 0 0)"
    by (simp add: run_comparison_def generate_data_def)
next
  assume a: "embedding_dim mod 4 \<noteq> 0"
  show "\<exists>e. CrossAttentionModel_init vocab_size embedding_dim init_cross = Inl e"
  proof (cases "CrossAttentionModel_init vocab_size embedding_dim init_cross")
    case (Inl e)
    then show ?thesis by blast
  next
    case (Inr m)
    from CrossAttentionModel_init_shapes(5)[OF Inr] a show ?thesis by simp
  qed
next
  assume "0 \<le> vocab_size \<and> 0 < embedding_dim \<and> embedding_dim mod 4 \<noteq> 0"
  then show "CrossAttentionModel_init vocab_size embedding_dim init_cross =
        Inl (EmbedDimAssertionError embedding_dim)"
    using CrossAttentionModel_init_not_divisible by blast
next
  assume a: "run_comparison train_and_measure init_base init_cross vocab_size embedding_dim
        dataset_size gs w = Inr r"
  obtain results w' where r: "r = (results, w')" by (cases r)
  from run_comparison_Inr[OF a[unfolded r]] obtain data labels gs' m where
    g: "generate_data vocab_size dataset_size gs = Inr ((data, labels), gs')" and
    c: "CrossAttentionModel_init vocab_size embedding_dim init_cross = Inr m"
    by blast
  show "4 \<le> vocab_size" using generate_data_Inr(4)[OF g] .
  show "embedding_dim mod 4 = 0" using CrossAttentionModel_init_shapes(5)[OF c] .
qed

theorem run_comparison_preconditions_witness:
  "(3 :: int) div 4 = 0 \<and>
   gen_example 3 (const_gen 0, id) = Inl (RandomRangeError 0 0) \<and>
   run_comparison recording_trainer (const_init 1) (const_init 1) 3 32 5 (const_gen 0, id) [] =
     Inl (RandomRangeError 0 0) \<and>
   CrossAttentionModel_init 50 6 (const_init 1) = Inl (EmbedDimAssertionError 6) \<and>
   run_comparison recording_trainer (const_init 1) (const_init 1) 50 32 5 (const_gen 0, id) [] =
     Inr ([(''base_model'', 20), (''cross_attention'', 20)],
          [(''BaseEmbeddingModel'', 20, 4, 1), (''CrossAttentionModel'', 20, 4, 1)]) \<and>
   (4 :: int) \<le> 50 \<and> (32 :: int) mod 4 = 0"
proof -
  from run_comparison_recording have
    h: "run_comparison recording_trainer (const_init 1) (const_init 1) 50 32 5 (const_gen 0, id) [] =
       Inr ([(''base_model'', 20), (''cross_attention'', 20)],
            [(''BaseEmbeddingModel'', 20, 4, 1), (''CrossAttentionModel'', 20, 4, 1)])"
    by blast
  have a: "(0 :: int) \<le> 3 \<and> (3 :: int) < 4 \<and> (1 :: int) \<le> 5" by simp
  have b: "(0 :: int) \<le> 50 \<and> (0 :: int) < 6 \<and> (6 :: int) mod 4 \<noteq> 0" by simp
  from run_comparison_preconditions[of 3 "(const_gen 0, id)" 5 recording_trainer
      "const_init 1" "const_init 1" 32 "[]"] a
    run_comparison_preconditions[of 50 "(const_gen 0, id)" 5 recording_trainer
      "const_init 1" "const_init 1" 6 "[]"] b
    h
  show ?thesis by simp
qed

text \<open>
  C7: for a results structure in which both models have a training time and three
  non-empty per-epoch lists, \<open>print_results\<close> raises nothing and prints, for each model,
  the training time and the last element of each of the three lists.
\<close>

theorem print_results_prints_final_values:
  assumes "model_entry results ''base_model'' base_time base_train base_test base_acc"
    and "model_entry results ''cross_attention'' cross_time cross_train cross_test cross_acc"
    and "base_train \<noteq> []" and "base_test \<noteq> []" and "base_acc \<noteq> []"
    and "cross_train \<noteq> []" and "cross_test \<noteq> []" and "cross_acc \<noteq> []"
  shows "print_results fmt results configuration =
     ([CHR 0x0A # ''=== Results for '' @ configuration @ '' ==='',
       CHR 0x0A # ''Base Model:'',
       ''Training Time: '' @ fmt 2 base_time @ '' seconds'',
       ''Final Training Loss: '' @ fmt 4 (last base_train),
       ''Final Test Loss: '' @ fmt 4 (last base_test),
       ''Final Accuracy: '' @ fmt 4 (last base_acc),
       CHR 0x0A # ''Cross-Attention Model:'',
       ''Training Time: '' @ fmt 2 cross_time @ '' seconds'',
       ''Final Training Loss: '' @ fmt 4 (last cross_train),
       ''Final Test Loss: '' @ fmt 4 (last cross_test),
       ''Final Accuracy: '' @ fmt 4 (last cross_acc)],
      None)"
  unfolding print_results_def
    model_entry_texts(1)[OF assms(1)] model_entry_texts(2)[OF assms(1,3)]
    model_entry_texts(3)[OF assms(1,4)] model_entry_texts(4)[OF assms(1,5)]
    model_entry_texts(1)[OF assms(2)] model_entry_texts(2)[OF assms(2,6)]
    model_entry_texts(3)[OF assms(2,7)] model_entry_texts(4)[OF assms(2,8)]
  by simp

theorem print_results_prints_final_values_witness:
  "\<forall>fmt. print_results fmt example_results ''Improved Configuration'' =
     ([CHR 0x0A # ''=== Results for Improved Configuration ==='',
       CHR 0x0A # ''Base Model:'',
       ''Training Time: '' @ fmt 2 0.5 @ '' seconds'',
       ''Final Training Loss: '' @ fmt 4 2,
       ''Final Test Loss: '' @ fmt 4 3,
       ''Final Accuracy: '' @ fmt 4 0.5,
       CHR 0x0A # ''Cross-Attention Model:'',
       ''Training Time: '' @ fmt 2 2.5 @ '' seconds'',
       ''Final Training Loss: '' @ fmt 4 1,
       ''Final Test Loss: '' @ fmt 4 2,
       ''Final Accuracy: '' @ fmt 4 0.75],
      None)"
proof
  fix fmt :: "nat \<Rightarrow> real \<Rightarrow> string"
  have b: "model_entry example_results ''base_model'' 0.5 [3, 2] [4, 3] [0.25, 0.5]"
    by (simp add: model_entry_def example_results_def)
  have c: "model_entry example_results ''cross_attention'' 2.5 [3, 1] [4, 2] [0.25, 0.75]"
    by (simp add: model_entry_def example_results_def)
  have n: "[3, 2 :: real] \<noteq> []" "[4, 3 :: real] \<noteq> []" "[0.25, 0.5 :: real] \<noteq> []"
    "[3, 1 :: real] \<noteq> []" "[4, 2 :: real] \<noteq> []" "[0.25, 0.75 :: real] \<noteq> []"
    by simp_all
  from print_results_prints_final_values[OF b c n, of fmt "''Improved Configuration''"]
  show "print_results fmt example_results ''Improved Configuration'' =
     ([CHR 0x0A # ''=== Results for Improved Configuration ==='',
       CHR 0x0A # ''Base Model:'',
       ''Training Time: '' @ fmt 2 0.5 @ '' seconds'',
       ''Final Training Loss: '' @ fmt 4 2,
       ''Final Test Loss: '' @ fmt 4 3,
       ''Final Accuracy: '' @ fmt 4 0.5,
       CHR 0x0A # ''Cross-Attention Model:'',
       ''Training Time: '' @ fmt 2 2.5 @ '' seconds'',
       ''Final Training Loss: '' @ fmt 4 1,
       ''Final Test Loss: '' @ fmt 4 2,
       ''Final Accuracy: '' @ fmt 4 0.75],
      None)"
    by simp
qed

end
